theory Spec2Isabelle
  imports Complex_Main
begin

section \<open>Data model\<close>

text \<open>
  A JavaScript number is an IEEE 754 binary64 value, here the real number it
  denotes.  The result of an arithmetic operation, and of reading a decimal
  string, is the exact result rounded to 53 significant bits, to nearest with
  ties to even (\<open>round64\<close>).  Infinities, NaN and subnormal numbers are not
  modelled: the amounts of this program are DECIMAL(20,8) values, far inside
  the normal range.
\<close>

definition round_half_even :: "real \<Rightarrow> int" where
  "round_half_even y =
     (let f = \<lfloor>y\<rfloor>; d = y - of_int f in
      if d < 1 / 2 then f else if d > 1 / 2 then f + 1 else if even f then f else f + 1)"

definition round64 :: "real \<Rightarrow> real" where
  "round64 x =
     (if x = 0 then 0
      else (let u = 2 powr (of_int \<lfloor>log 2 \<bar>x\<bar>\<rfloor> - 52)
            in of_int (round_half_even (x / u)) * u))"

text \<open>
  A DECIMAL column holds either the number a caller has just written into the
  instance (\<open>Number\<close>, a binary64 value) or the non-empty decimal string the
  database driver returns for it (\<open>Decimal\<close>, given by the value the string
  denotes).  \<open>parseFloat\<close> and the conversion done by \<open>*\<close> read a string as the
  nearest binary64 value.  A column that is \<open>null\<close> is \<open>None\<close>.
\<close>

datatype amount = Number real | Decimal real

fun exact_value :: "amount \<Rightarrow> real" where
  "exact_value (Number r) = r"
| "exact_value (Decimal r) = r"

fun parseFloat :: "amount \<Rightarrow> real" where
  "parseFloat (Number r) = r"
| "parseFloat (Decimal r) = round64 r"

text \<open>JavaScript truthiness: \<open>null\<close> and the number 0 are falsy, a non-empty string is not.\<close>

fun truthy :: "amount option \<Rightarrow> bool" where
  "truthy None = False"
| "truthy (Some (Number r)) = (r \<noteq> 0)"
| "truthy (Some (Decimal r)) = True"

text \<open>
  The columns of \<open>orders\<close> and \<open>payments\<close> that the payment path reads or writes
  (models/Order.js, models/Payment.js).  Statuses are the strings of the source.
\<close>

record order =
  order_id :: string
  printful_order_id :: "string option"
  payment_status :: string
  transaction_hash :: "string option"
  order_status :: string

record payment =
  pay_order_id :: string
  expected_amount :: amount
  received_amount :: "amount option"
  pay_transaction_hash :: "string option"
  confirmations :: "int option"
  status :: string
  expires_at :: int
  detected_at :: "int option"
  confirmed_at :: "int option"

text \<open>
  A property of a JavaScript object that a caller may leave out, set to \<open>null\<close> or
  set to a value.
\<close>

datatype 'a js = Undefined | Null | Value 'a

text \<open>The observation handed to the callback: \<open>{status, received, txHash, confirmations, pending}\<close>.\<close>

record paymentData =
  obs_status :: string
  received :: "amount js"
  txHash :: "string js"
  obs_confirmations :: "int js"
  pending :: "real option"

text \<open>Requests sent to the fulfilment and notification collaborators, in the order sent.\<close>

datatype request =
    CreatePrintfulOrder string
  | SendOrderConfirmation string
  | SendOrderCancellation string string

datatype log_entry = LogError string | LogPayment string | LogOrder string | LogInfo string

text \<open>The timers of the process: what a live \<open>setInterval\<close>/\<open>setTimeout\<close> handle serves.\<close>

datatype timer = CheckInterval string | ExpiryTimeout string

text \<open>
  The state: the two tables (a row's position is its primary key), the monitor
  registry \<open>monitoredAddresses\<close> of the Decred service with the live timers of the
  process, the requests sent so far and the log.  The connection to the
  database is taken to work: a write fails only when the values written are
  refused (see \<open>Persistence\<close>).
\<close>

record world =
  orders :: "order list"
  payments :: "payment list"
  monitoredAddresses :: "string \<rightharpoonup> nat \<times> nat"
  timers :: "nat \<rightharpoonup> timer"
  next_handle :: nat
  requests :: "request list"
  logs :: "log_entry list"

text \<open>What the outside answers during one call: the clock and \<open>printfulService.createOrder\<close>.\<close>

datatype printful_response = PrintfulError string | PrintfulOrder string

record env =
  now :: int
  createOrder :: printful_response

section \<open>Persistence\<close>

text \<open>\<open>Model.findOne({where})\<close>: the first row that satisfies the clause, with its key.\<close>

fun findOne :: "('a \<Rightarrow> bool) \<Rightarrow> 'a list \<Rightarrow> (nat \<times> 'a) option" where
  "findOne P [] = None"
| "findOne P (x # xs) =
     (if P x then Some (0, x)
      else (case findOne P xs of None \<Rightarrow> None | Some (i, y) \<Rightarrow> Some (Suc i, y)))"

text \<open>\<open>instance.update(values)\<close>: the columns of the row with the instance's key are set.\<close>

definition update_row :: "nat \<Rightarrow> ('a \<Rightarrow> 'a) \<Rightarrow> 'a list \<Rightarrow> 'a list" where
  "update_row i f rows = rows[i := f (rows ! i)]"

text \<open>
  \<open>update\<close> ignores a property that is \<open>undefined\<close>: the column keeps its value.
  \<open>null\<close> is written as NULL.
\<close>

fun written :: "'a js \<Rightarrow> 'a option \<Rightarrow> 'a option" where
  "written Undefined old = old"
| "written Null old = None"
| "written (Value v) old = Some v"

text \<open>
  A write is refused, and \<open>update\<close> throws, when a value fails a validator of the
  model or does not fit its column in the PostgreSQL schema: \<open>confirmations INTEGER CHECK
  (confirmations >= 0)\<close> with \<open>validate: {min: 0}\<close>, \<open>transaction_hash
  VARCHAR(255)\<close>, \<open>received_amount DECIMAL(20,8)\<close> (rounded to 8 places, at most
  12 digits before the point), \<open>printful_order_id VARCHAR(50)\<close>.  Properties
  left out and \<open>null\<close> are not checked.
\<close>

definition fits_integer_min_0 :: "int \<Rightarrow> bool" where
  "fits_integer_min_0 c \<longleftrightarrow> 0 \<le> c \<and> c \<le> 2147483647"

definition fits_varchar :: "nat \<Rightarrow> string \<Rightarrow> bool" where
  "fits_varchar n v \<longleftrightarrow> length v \<le> n"

definition fits_decimal_20_8 :: "amount \<Rightarrow> bool" where
  "fits_decimal_20_8 a \<longleftrightarrow> \<bar>exact_value a\<bar> < 10 ^ 12 - 5 / 10 ^ 9"

fun fits_null :: "('a \<Rightarrow> bool) \<Rightarrow> 'a option \<Rightarrow> bool" where
  "fits_null fits None = True"
| "fits_null fits (Some v) = fits v"

fun accepted :: "('a \<Rightarrow> bool) \<Rightarrow> 'a js \<Rightarrow> bool" where
  "accepted fits Undefined = True"
| "accepted fits Null = True"
| "accepted fits (Value v) = fits v"

text \<open>The two writes a \<open>confirmed\<close> observation asks for.\<close>

definition payment_update_accepted :: "paymentData \<Rightarrow> bool" where
  "payment_update_accepted pd \<longleftrightarrow>
     accepted fits_decimal_20_8 (received pd)
     \<and> accepted (fits_varchar 255) (txHash pd)
     \<and> accepted fits_integer_min_0 (obs_confirmations pd)"

definition order_update_accepted :: "paymentData \<Rightarrow> bool" where
  "order_update_accepted pd \<longleftrightarrow> accepted (fits_varchar 255) (txHash pd)"

definition logged :: "log_entry \<Rightarrow> world \<Rightarrow> world" where
  "logged l w = w\<lparr>logs := logs w @ [l]\<rparr>"

definition send :: "request \<Rightarrow> world \<Rightarrow> world" where
  "send r w = w\<lparr>requests := requests w @ [r]\<rparr>"

section \<open>controllers/orderController.js\<close>

text \<open>
  \<open>createPrintfulOrder\<close>: submits the order, then stores the fulfilment reference
  and moves the order to \<open>production\<close>; on failure it logs and throws again
  (\<open>Some message\<close> in the first component), also when the reference does not
  fit its column.  The instance it is given is the row with key \<open>k\<close>.
\<close>

definition createPrintfulOrder :: "env \<Rightarrow> nat \<Rightarrow> order \<Rightarrow> world \<Rightarrow> string option \<times> world" where
  "createPrintfulOrder e k ord w =
     (let w1 = send (CreatePrintfulOrder (order_id ord)) w in
      case createOrder e of
        PrintfulError msg \<Rightarrow>
          (Some msg, logged (LogError ''Printful order creation failed'') w1)
      | PrintfulOrder pid \<Rightarrow>
          if \<not> fits_varchar 50 pid then
            (Some ''value too long for type character varying(50)'', logged (LogError ''Printful order creation failed'') w1)
          else
            (None,
             logged (LogOrder ''printful_order_created'')
               (w1\<lparr>orders := update_row k
                      (\<lambda>r. r\<lparr>printful_order_id := Some pid, order_status := ''production''\<rparr>)
                      (orders w1)\<rparr>)))"

text \<open>
  \<open>handlePaymentUpdate(orderId, paymentData)\<close>, the callback of every payment
  monitor.  A refused write throws; the \<open>catch\<close> logs, and what was written before
  stays.
\<close>

definition handlePaymentUpdate :: "env \<Rightarrow> string \<Rightarrow> paymentData \<Rightarrow> world \<Rightarrow> world" where
  "handlePaymentUpdate e orderId pd w =
     (case findOne (\<lambda>r. order_id r = orderId) (orders w) of
        None \<Rightarrow> logged (LogError ''Order not found for payment update'') w
      | Some (k, ord) \<Rightarrow>
         (let pay = findOne (\<lambda>p. pay_order_id p = orderId) (payments w) in
          if obs_status pd = ''confirmed'' then
            (case (case pay of
                     None \<Rightarrow> Some w
                   | Some (i, p) \<Rightarrow>
                       if \<not> payment_update_accepted pd then None
                       else Some (w\<lparr>payments := update_row i
                               (\<lambda>r. r\<lparr>status := ''confirmed'',
                                       received_amount := written (received pd) (received_amount r),
                                       pay_transaction_hash :=
                                         written (txHash pd) (pay_transaction_hash r),
                                       confirmations :=
                                         written (obs_confirmations pd) (confirmations r),
                                       confirmed_at := Some (now e)\<rparr>)
                               (payments w)\<rparr>)) of
               None \<Rightarrow> logged (LogError ''Payment update handling failed'') w
             | Some w1 \<Rightarrow>
                 if \<not> order_update_accepted pd then
                   logged (LogError ''Payment update handling failed'') w1
                 else
                   (let upd = (\<lambda>r. r\<lparr>payment_status := ''confirmed'',
                                     transaction_hash := written (txHash pd) (transaction_hash r),
                                     order_status := ''paid''\<rparr>);
                        w2 = w1\<lparr>orders := update_row k upd (orders w1)\<rparr>
                    in case createPrintfulOrder e k (upd ord) w2 of
                         (Some msg, w3) \<Rightarrow> logged (LogError ''Payment update handling failed'') w3
                       | (None, w3) \<Rightarrow>
                           logged (LogPayment ''payment_confirmed'')
                             (send (SendOrderConfirmation (order_id ord)) w3)))
          else if obs_status pd = ''confirming'' then
            (let w1 = (case pay of
                         None \<Rightarrow> w
                       | Some (i, p) \<Rightarrow>
                           w\<lparr>payments := update_row i
                               (\<lambda>r. r\<lparr>status := ''confirming'', detected_at := Some (now e)\<rparr>)
                               (payments w)\<rparr>);
                 w2 = w1\<lparr>orders := update_row k
                          (\<lambda>r. r\<lparr>payment_status := ''confirming''\<rparr>) (orders w1)\<rparr>
             in logged (LogPayment ''payment_detecting'') w2)
          else if obs_status pd = ''expired'' then
            (let w1 = (case pay of
                         None \<Rightarrow> w
                       | Some (i, p) \<Rightarrow>
                           w\<lparr>payments := update_row i (\<lambda>r. r\<lparr>status := ''expired''\<rparr>) (payments w)\<rparr>);
                 w2 = w1\<lparr>orders := update_row k
                          (\<lambda>r. r\<lparr>payment_status := ''expired'', order_status := ''cancelled''\<rparr>)
                          (orders w1)\<rparr>
             in logged (LogPayment ''payment_expired'')
                  (send (SendOrderCancellation (order_id ord) ''Payment not received within time limit'') w2))
          else w))"

section \<open>controllers/paymentController.js\<close>

text \<open>The body of \<open>POST /api/payments/:orderId/verify\<close> (admin).\<close>

record verify_body =
  body_transaction_hash :: "string option"
  body_amount :: "amount option"
  force :: bool

text \<open>\<open>a || b\<close> on an optional string: the empty string and \<open>undefined\<close> are falsy.\<close>

fun or_else :: "string option \<Rightarrow> string option \<Rightarrow> string option" where
  "or_else None b = b"
| "or_else (Some s) b = (if s = [] then b else Some s)"

text \<open>
  \<open>verifyPayment\<close>: the HTTP status of the response and the state after it.  A
  refused write throws; the \<open>catch\<close> logs and answers 500.
\<close>

definition verifyPayment :: "env \<Rightarrow> string \<Rightarrow> verify_body \<Rightarrow> world \<Rightarrow> nat \<times> world" where
  "verifyPayment e orderId body w =
     (case findOne (\<lambda>r. order_id r = orderId) (orders w) of
        None \<Rightarrow> (404, w)
      | Some (k, ord) \<Rightarrow>
         (case findOne (\<lambda>p. pay_order_id p = orderId) (payments w) of
            None \<Rightarrow> (404, w)
          | Some (i, p) \<Rightarrow>
              if payment_status ord = ''confirmed'' \<and> \<not> force body then (400, w)
              else
                (let pay_hash = or_else (body_transaction_hash body) (pay_transaction_hash p);
                     amount = (case body_amount body of
                                 None \<Rightarrow> expected_amount p
                               | Some a \<Rightarrow> if truthy (Some a) then a else expected_amount p);
                     order_hash = or_else (body_transaction_hash body) (transaction_hash ord)
                 in if \<not> fits_null (fits_varchar 255) pay_hash
                       \<or> \<not> fits_decimal_20_8 amount then
                      (500, logged (LogError ''Manual payment verification failed'') w)
                    else
                      (let w1 = w\<lparr>payments := update_row i
                                  (\<lambda>r. r\<lparr>status := ''confirmed'',
                                          pay_transaction_hash := pay_hash,
                                          received_amount := Some amount,
                                          confirmed_at := Some (now e)\<rparr>)
                                  (payments w)\<rparr>
                       in if \<not> fits_null (fits_varchar 255) order_hash then
                            (500, logged (LogError ''Manual payment verification failed'') w1)
                          else
                            (let w2 = w1\<lparr>orders := update_row k
                                        (\<lambda>r. r\<lparr>payment_status := ''confirmed'',
                                                transaction_hash := order_hash,
                                                order_status := ''paid''\<rparr>)
                                        (orders w1)\<rparr>
                             in (200, logged (LogPayment ''payment_manually_verified'') w2))))))"

section \<open>services/decredService.js\<close>

text \<open>\<open>stopMonitoring(orderId)\<close>: clears both timers of the entry and deletes it.\<close>

definition stopMonitoring :: "string \<Rightarrow> world \<Rightarrow> world" where
  "stopMonitoring orderId w =
     (case monitoredAddresses w orderId of
        None \<Rightarrow> w
      | Some (checkInterval, timeout) \<Rightarrow>
          logged (LogPayment ''monitoring_stopped'')
            (w\<lparr>timers := ((timers w)(checkInterval := None))(timeout := None),
               monitoredAddresses := (monitoredAddresses w)(orderId := None)\<rparr>))"

text \<open>
  \<open>startMonitoring(address, expectedAmount, orderId, callback, timeoutMinutes)\<close>:
  \<open>setInterval\<close> and \<open>setTimeout\<close> each return a handle never returned before.
\<close>

fun timer_order :: "timer \<Rightarrow> string" where
  "timer_order (CheckInterval oid) = oid"
| "timer_order (ExpiryTimeout oid) = oid"

definition startMonitoring :: "string \<Rightarrow> real \<Rightarrow> string \<Rightarrow> nat \<Rightarrow> world \<Rightarrow> world" where
  "startMonitoring address expectedAmount orderId timeoutMinutes w =
     (let w0 = stopMonitoring orderId w;
          checkInterval = next_handle w0;
          w1 = w0\<lparr>timers := (timers w0)(checkInterval \<mapsto> CheckInterval orderId),
                  next_handle := Suc checkInterval\<rparr>;
          timeout = next_handle w1;
          w2 = w1\<lparr>timers := (timers w1)(timeout \<mapsto> ExpiryTimeout orderId),
                  next_handle := Suc timeout\<rparr>
      in logged (LogPayment ''monitoring_started'')
           (w2\<lparr>monitoredAddresses := (monitoredAddresses w2)(orderId \<mapsto> (checkInterval, timeout))\<rparr>))"

text \<open>What dcrwallet answers during one poll tick, and the configured \<open>minConfirmations\<close>.\<close>

datatype 'a rpc = RpcError string | RpcResult 'a

record tx =
  tx_hash :: "string js"
  tx_confirmations :: "int option"
  category :: string

record wallet =
  getreceived_minconf :: "real option rpc"
  getreceived_zeroconf :: "real option rpc"
  listtransactions :: "tx list rpc"
  minConfirmations :: int

text \<open>\<open>parseFloat(x) || 0\<close>: \<open>None\<close> stands for an answer that parses to NaN.\<close>

fun parseFloat_or_0 :: "real option \<Rightarrow> real" where
  "parseFloat_or_0 None = 0"
| "parseFloat_or_0 (Some r) = r"

record payment_check =
  chk_received :: real
  chk_pending :: real
  chk_total :: real
  chk_expected :: real
  isComplete :: bool
  isPending :: bool
  isUnderpaid :: bool

text \<open>\<open>checkPayment(address, expectedAmount)\<close>; \<open>Inl\<close> is the error thrown again after logging.\<close>

definition checkPayment :: "wallet \<Rightarrow> real \<Rightarrow> world \<Rightarrow> (string + payment_check) \<times> world" where
  "checkPayment rpc expectedAmount w =
     (case getreceived_minconf rpc of
        RpcError msg \<Rightarrow>
          (Inl msg, logged (LogError ''Failed to check Decred payment'')
                      (logged (LogError ''Decred RPC call failed'') w))
      | RpcResult rec \<Rightarrow>
         (case getreceived_zeroconf rpc of
            RpcError msg \<Rightarrow>
              (Inl msg, logged (LogError ''Failed to check Decred payment'')
                          (logged (LogError ''Decred RPC call failed'') w))
          | RpcResult unconfirmed \<Rightarrow>
              (let receivedAmount = parseFloat_or_0 rec;
                   unconfirmedAmount = parseFloat_or_0 unconfirmed;
                   pendingAmount = round64 (unconfirmedAmount - receivedAmount)
               in (Inr \<lparr>chk_received = receivedAmount,
                        chk_pending = pendingAmount,
                        chk_total = unconfirmedAmount,
                        chk_expected = expectedAmount,
                        isComplete = (receivedAmount \<ge> expectedAmount),
                        isPending = (pendingAmount > 0),
                        isUnderpaid = (unconfirmedAmount > 0 \<and> unconfirmedAmount < expectedAmount)\<rparr>,
                   w))))"

text \<open>\<open>listTransactions(orderId, 1)\<close>.\<close>

definition listTransactions :: "wallet \<Rightarrow> world \<Rightarrow> (string + tx list) \<times> world" where
  "listTransactions rpc w =
     (case listtransactions rpc of
        RpcError msg \<Rightarrow>
          (Inl msg, logged (LogError ''Failed to list Decred transactions'')
                      (logged (LogError ''Decred RPC call failed'') w))
      | RpcResult txs \<Rightarrow> (Inr txs, w))"

text \<open>\<open>tx.confirmations || this.minConfirmations\<close>: \<open>undefined\<close> and 0 are falsy.\<close>

fun confirmations_or :: "int option \<Rightarrow> int \<Rightarrow> int" where
  "confirmations_or None m = m"
| "confirmations_or (Some c) m = (if c = 0 then m else c)"

text \<open>
  One run of the function given to \<open>setInterval\<close> in \<open>startMonitoring\<close>.  The first
  component is the observation passed to the callback, if the callback is called.
\<close>

definition checkInterval_tick :: "wallet \<Rightarrow> real \<Rightarrow> string \<Rightarrow> world \<Rightarrow> paymentData option \<times> world" where
  "checkInterval_tick rpc expectedAmount orderId w =
     (case checkPayment rpc expectedAmount w of
        (Inl msg, w1) \<Rightarrow> (None, logged (LogError ''Payment monitoring error'') w1)
      | (Inr st, w1) \<Rightarrow>
          if isComplete st then
            (let w2 = stopMonitoring orderId w1 in
             case listTransactions rpc w2 of
               (Inl msg, w3) \<Rightarrow> (None, logged (LogError ''Payment monitoring error'') w3)
             | (Inr transactions, w3) \<Rightarrow>
                 (let found = find (\<lambda>t. category t = ''receive'') transactions in
                  (Some \<lparr>obs_status = ''confirmed'',
                         received = Value (Number (chk_received st)),
                         txHash = (case found of None \<Rightarrow> Undefined | Some t \<Rightarrow> tx_hash t),
                         obs_confirmations =
                           Value (confirmations_or
                                   (case found of None \<Rightarrow> None | Some t \<Rightarrow> tx_confirmations t)
                                   (minConfirmations rpc)),
                         pending = None\<rparr>,
                   w3)))
          else if isPending st then
            (Some \<lparr>obs_status = ''confirming'',
                   received = Value (Number (chk_total st)),
                   txHash = Undefined,
                   obs_confirmations = Undefined,
                   pending = Some (chk_pending st)\<rparr>,
             w1)
          else (None, w1))"

text \<open>
  The function given to \<open>setTimeout\<close> in \<open>startMonitoring\<close>, with the callback the
  order controller passes (\<open>handlePaymentUpdate\<close>).
\<close>

definition expired_observation :: paymentData where
  "expired_observation =
     \<lparr>obs_status = ''expired'', received = Undefined, txHash = Undefined,
      obs_confirmations = Undefined, pending = None\<rparr>"

definition timeout_fired :: "env \<Rightarrow> string \<Rightarrow> world \<Rightarrow> world" where
  "timeout_fired e orderId w =
     handlePaymentUpdate e orderId expired_observation (stopMonitoring orderId w)"

section \<open>The sweep: cleanupExpiredPayments\<close>

text \<open>\<open>Payment.findAll\<close> for pending payments whose \<open>expires_at\<close> is before now.\<close>

definition findAll_expired :: "int \<Rightarrow> payment list \<Rightarrow> (nat \<times> payment) list" where
  "findAll_expired t ps =
     filter (\<lambda>(i, p). status p = ''pending'' \<and> expires_at p < t) (enumerate 0 ps)"

text \<open>The body of the \<open>for\<close> loop, for one selected payment.\<close>

definition expire_payment :: "nat \<Rightarrow> payment \<Rightarrow> world \<Rightarrow> world" where
  "expire_payment i p w =
     logged (LogPayment ''payment_expired_cleanup'')
       (stopMonitoring (pay_order_id p)
          (w\<lparr>payments := update_row i (\<lambda>r. r\<lparr>status := ''expired''\<rparr>) (payments w),
             orders := map (\<lambda>r. if order_id r = pay_order_id p
                                 then r\<lparr>payment_status := ''expired'', order_status := ''cancelled''\<rparr>
                                 else r)
                         (orders w)\<rparr>))"

fun expire_each :: "(nat \<times> payment) list \<Rightarrow> world \<Rightarrow> world" where
  "expire_each [] w = w"
| "expire_each ((i, p) # rest) w = expire_each rest (expire_payment i p w)"

text \<open>
  \<open>cleanupExpiredPayments\<close> returns the number of payments it expired.  Its last
  step, the cleanup of the rate cache, touches none of the state modelled here.
\<close>

definition cleanupExpiredPayments :: "env \<Rightarrow> world \<Rightarrow> nat \<times> world" where
  "cleanupExpiredPayments e w =
     (let expiredPayments = findAll_expired (now e) (payments w);
          w1 = expire_each expiredPayments w
      in (length expiredPayments, logged (LogInfo ''Payment cleanup complete'') w1))"

section \<open>models/Payment.js\<close>

text \<open>
  \<open>isAmountSufficient(tolerance = 1)\<close>; \<open>None\<close> is the omitted argument, and a
  tolerance given is a binary64 value.  The quotient, the difference and the
  product are binary64 operations.  For finite operands an underflow of the
  quotient or an overflow of the product does not change the comparison, so
  leaving them out of \<open>round64\<close> does not change the answer.
\<close>

definition isAmountSufficient :: "payment \<Rightarrow> real option \<Rightarrow> bool" where
  "isAmountSufficient p tol =
     (let tolerance = (case tol of None \<Rightarrow> 1 | Some t \<Rightarrow> t) in
      case received_amount p of
        None \<Rightarrow> False
      | Some a \<Rightarrow>
          if \<not> truthy (Some a) then False
          else (let minAccepted =
                      round64 (parseFloat (expected_amount p)
                               * round64 (1 - round64 (tolerance / 100)))
                in parseFloat a \<ge> minAccepted))"

section \<open>Sample data\<close>

definition sample_order :: order where
  "sample_order =
     \<lparr>order_id = ''AA-2024-000001'', printful_order_id = None, payment_status = ''pending'',
      transaction_hash = None, order_status = ''pending_payment''\<rparr>"

definition sample_payment :: payment where
  "sample_payment =
     \<lparr>pay_order_id = ''AA-2024-000001'', expected_amount = Decimal 5, received_amount = None,
      pay_transaction_hash = None, confirmations = Some 0, status = ''pending'',
      expires_at = 3600000, detected_at = None, confirmed_at = None\<rparr>"

text \<open>A fresh order with its payment record and a running monitor.\<close>

definition sample_world :: world where
  "sample_world =
     \<lparr>orders = [sample_order], payments = [sample_payment],
      monitoredAddresses = [''AA-2024-000001'' \<mapsto> (0, 1)],
      timers = [0 \<mapsto> CheckInterval ''AA-2024-000001'', 1 \<mapsto> ExpiryTimeout ''AA-2024-000001''],
      next_handle = 2, requests = [], logs = []\<rparr>"

definition confirmed_observation :: paymentData where
  "confirmed_observation =
     \<lparr>obs_status = ''confirmed'', received = Value (Number 5), txHash = Value ''abc123'',
      obs_confirmations = Value 2, pending = None\<rparr>"

definition printful_ok :: env where
  "printful_ok = \<lparr>now = 600000, createOrder = PrintfulOrder ''12345''\<rparr>"

definition printful_down :: env where
  "printful_down = \<lparr>now = 600000, createOrder = PrintfulError ''timeout''\<rparr>"

definition detected_observation :: paymentData where
  "detected_observation =
     \<lparr>obs_status = ''detected'', received = Value (Number 5), txHash = Undefined,
      obs_confirmations = Undefined, pending = None\<rparr>"

definition confirming_observation :: paymentData where
  "confirming_observation =
     \<lparr>obs_status = ''confirming'', received = Value (Number 4), txHash = Undefined,
      obs_confirmations = Undefined, pending = Some 4\<rparr>"

definition confirmed_world :: world where
  "confirmed_world =
     \<lparr>orders = [sample_order\<lparr>printful_order_id := Some ''12345'', payment_status := ''confirmed'',
                   transaction_hash := Some ''abc123'', order_status := ''production''\<rparr>],
      payments = [sample_payment\<lparr>received_amount := Some (Number 5),
                   pay_transaction_hash := Some ''abc123'', confirmations := Some 2,
                   status := ''confirmed'', confirmed_at := Some 600000\<rparr>],
      monitoredAddresses = Map.empty, timers = Map.empty, next_handle = 2,
      requests = [CreatePrintfulOrder ''AA-2024-000001'', SendOrderConfirmation ''AA-2024-000001''],
      logs = []\<rparr>"

definition expired_world :: world where
  "expired_world =
     \<lparr>orders = [sample_order\<lparr>payment_status := ''expired'', order_status := ''cancelled''\<rparr>],
      payments = [sample_payment\<lparr>status := ''expired''\<rparr>],
      monitoredAddresses = Map.empty, timers = Map.empty, next_handle = 2,
      requests = [SendOrderCancellation ''AA-2024-000001'' ''Payment not received within time limit''],
      logs = []\<rparr>"

definition verify_plain :: verify_body where
  "verify_plain = \<lparr>body_transaction_hash = Some ''abc123'', body_amount = None, force = False\<rparr>"

text \<open>The wallet has seen 4 DCR, none of it confirmed yet.\<close>

definition short_wallet :: wallet where
  "short_wallet =
     \<lparr>getreceived_minconf = RpcResult (Some 0), getreceived_zeroconf = RpcResult (Some 4),
      listtransactions = RpcResult [], minConfirmations = 2\<rparr>"

text \<open>The wallet reports 5 DCR confirmed, but the transaction lookup fails.\<close>

definition lookup_down_wallet :: wallet where
  "lookup_down_wallet =
     \<lparr>getreceived_minconf = RpcResult (Some 5), getreceived_zeroconf = RpcResult (Some 5),
      listtransactions = RpcError ''connection refused'', minConfirmations = 2\<rparr>"

definition paid_wallet :: wallet where
  "paid_wallet =
     \<lparr>getreceived_minconf = RpcResult (Some 5), getreceived_zeroconf = RpcResult (Some 5),
      listtransactions = RpcResult [\<lparr>tx_hash = Value ''abc123'', tx_confirmations = Some 3,
                                     category = ''receive''\<rparr>],
      minConfirmations = 2\<rparr>"

definition silent_wallet :: wallet where
  "silent_wallet =
     \<lparr>getreceived_minconf = RpcResult (Some 0), getreceived_zeroconf = RpcResult (Some 0),
      listtransactions = RpcResult [], minConfirmations = 2\<rparr>"

text \<open>The sweep runs at minute 61 of an order that expires at minute 60.\<close>

definition minute_61 :: env where
  "minute_61 = \<lparr>now = 3660000, createOrder = PrintfulOrder ''12345''\<rparr>"

text \<open>
  A webhook redelivers the confirmation with a negative confirmation count, which
  the Payment model refuses.
\<close>

definition refused_observation :: paymentData where
  "refused_observation = confirmed_observation\<lparr>obs_confirmations := Value (- 1)\<rparr>"

text \<open>Expected 1.07, received 1.0593: exactly 99 percent.\<close>

definition at_the_bound :: payment where
  "at_the_bound =
     sample_payment\<lparr>expected_amount := Decimal (107 / 100),
                     received_amount := Some (Decimal (10593 / 10000))\<rparr>"

text \<open>A payment record on which the number 0 has been written as the received amount.\<close>

definition zero_received :: payment where
  "zero_received = sample_payment\<lparr>received_amount := Some (Number 0)\<rparr>"

section \<open>Specifications\<close>

text \<open>
  Sufficiency as the specification words it: \<open>received_amount\<close> is non-null and
  \<open>received_amount \<ge> expected_amount \<times> (1 \<minus> t/100)\<close>, in exact arithmetic.
\<close>

definition sufficient_as_specified :: "payment \<Rightarrow> real \<Rightarrow> bool" where
  "sufficient_as_specified p t =
     (case received_amount p of
        None \<Rightarrow> False
      | Some a \<Rightarrow> exact_value a \<ge> exact_value (expected_amount p) * (1 - t / 100))"

text \<open>The same comparison with each operation rounded to binary64.\<close>

definition sufficient_in_binary64 :: "payment \<Rightarrow> real \<Rightarrow> bool" where
  "sufficient_in_binary64 p t =
     (case received_amount p of
        None \<Rightarrow> False
      | Some a \<Rightarrow>
          parseFloat a
            \<ge> round64 (parseFloat (expected_amount p) * round64 (1 - round64 (t / 100))))"

text \<open>
  The registry and the timers agree: every live timer was handed out before
  \<open>next_handle\<close> and is one of the two handles registered for the order it serves,
  and registered handles were handed out before \<open>next_handle\<close>.
\<close>

definition monitors_ok :: "world \<Rightarrow> bool" where
  "monitors_ok w \<longleftrightarrow>
     (\<forall>h tm. timers w h = Some tm \<longrightarrow>
        h < next_handle w \<and>
        (\<exists>i t. monitoredAddresses w (timer_order tm) = Some (i, t) \<and> (h = i \<or> h = t)))
     \<and> (\<forall>oid i t. monitoredAddresses w oid = Some (i, t) \<longrightarrow>
           i < next_handle w \<and> t < next_handle w)"

text \<open>The live timers that serve an order.\<close>

definition timers_of :: "world \<Rightarrow> string \<Rightarrow> nat set" where
  "timers_of w orderId = {h. \<exists>tm. timers w h = Some tm \<and> timer_order tm = orderId}"

section \<open>Facts about binary64 rounding\<close>

lemma round_half_even_near:
  assumes "of_int m - 1 / 2 < y" and "y < of_int m + 1 / 2"
  shows "round_half_even y = m"
proof (cases "of_int m \<le> y")
  case True
  with assms have "\<lfloor>y\<rfloor> = m" by (intro floor_unique) auto
  with assms show ?thesis by (simp add: round_half_even_def Let_def)
next
  case False
  with assms have "\<lfloor>y\<rfloor> = m - 1" by (intro floor_unique) auto
  with assms False show ?thesis by (simp add: round_half_even_def Let_def)
qed

lemma round_half_even_of_int: "round_half_even (of_int m) = m"
  by (rule round_half_even_near) simp_all

lemma round_half_even_bounds: "\<lfloor>y\<rfloor> \<le> round_half_even y \<and> round_half_even y \<le> \<lfloor>y\<rfloor> + 1"
  by (simp add: round_half_even_def Let_def)

lemma floor_log2_between:
  assumes "2 powr of_int k \<le> x" and "x < 2 powr of_int (k + 1)"
  shows "\<lfloor>log 2 x\<rfloor> = k"
proof (rule floor_unique)
  have "0 < (2::real) powr of_int k" by simp
  with assms(1) have pos: "0 < x" by linarith
  show "of_int k \<le> log 2 x" using assms(1) pos by (simp add: le_log_iff)
  show "log 2 x < of_int k + 1" using assms(2) pos by (simp add: log_less_iff)
qed

lemma two_powr_shift:
  "(2::real) powr (a + 52) = 2 ^ 52 * 2 powr a"
  "(2::real) powr (a + 53) = 2 ^ 53 * 2 powr a"
  by (simp_all add: powr_add)

lemma round64_scaled:
  assumes u: "u = 2 powr of_int j"
    and lo: "2 ^ 52 * u \<le> \<bar>x\<bar>" and hi: "\<bar>x\<bar> < 2 ^ 53 * u"
  shows "round64 x = of_int (round_half_even (x / u)) * u"
proof -
  have upos: "0 < u" by (simp add: u)
  have "2 powr of_int (j + 52) \<le> \<bar>x\<bar>"
    using lo by (simp add: u two_powr_shift)
  moreover have "\<bar>x\<bar> < 2 powr of_int (j + 52 + 1)"
    using hi two_powr_shift(2) [of "of_int j"] by (simp add: u add.assoc)
  ultimately have fl: "\<lfloor>log 2 \<bar>x\<bar>\<rfloor> = j + 52" by (rule floor_log2_between)
  from lo upos have "x \<noteq> 0" by auto
  with fl show ?thesis by (simp add: round64_def Let_def u)
qed

lemma round64_sign:
  "(0 < round64 x) = (0 < x)" "(round64 x = 0) = (x = 0)"
proof -
  have main: "(0 < x \<longrightarrow> 0 < round64 x) \<and> (x < 0 \<longrightarrow> round64 x < 0)"
  proof (cases "x = 0")
    case True
    then show ?thesis by simp
  next
    case False
    define e where "e = \<lfloor>log 2 \<bar>x\<bar>\<rfloor>"
    define u :: real where "u = 2 powr (of_int e - 52)"
    have upos: "0 < u" by (simp add: u_def)
    have r: "round64 x = of_int (round_half_even (x / u)) * u"
      using False by (simp add: round64_def Let_def u_def e_def)
    have "of_int e \<le> log 2 \<bar>x\<bar>" unfolding e_def by simp
    with False have "2 powr of_int e \<le> \<bar>x\<bar>" by (simp add: le_log_iff)
    moreover have "2 powr of_int e = 2 ^ 52 * u"
      using two_powr_shift(1) [of "of_int e - 52"] by (simp add: u_def)
    ultimately have big: "2 ^ 52 * u \<le> \<bar>x\<bar>" by simp
    with upos have big': "2 ^ 52 \<le> \<bar>x\<bar> / u" by (simp add: pos_le_divide_eq)
    show ?thesis
    proof (intro conjI impI)
      assume "0 < x"
      with big' have "(2::real) ^ 52 \<le> x / u" by simp
      then have "(1::real) \<le> x / u" by simp
      then have "1 \<le> \<lfloor>x / u\<rfloor>" by (simp add: le_floor_iff)
      with round_half_even_bounds [of "x / u"] have "0 < round_half_even (x / u)" by linarith
      with upos r show "0 < round64 x" by simp
    next
      assume "x < 0"
      with big' upos have "x / u \<le> - (2 ^ 52)" by (simp add: abs_if split: if_splits)
      then have "x / u < - 1" by simp
      then have "\<lfloor>x / u\<rfloor> < - 1" by (simp add: floor_less_iff)
      with round_half_even_bounds [of "x / u"] have "round_half_even (x / u) < 0" by linarith
      with upos r show "round64 x < 0" by (simp add: mult_neg_pos)
    qed
  qed
  from main show "(0 < round64 x) = (0 < x)"
    by (cases "x = 0"; cases "0 < x") (auto simp: round64_def not_less)
  from main show "(round64 x = 0) = (x = 0)"
    by (cases "x = 0"; cases "0 < x") (auto simp: round64_def not_less)
qed


lemma two_powr_int:
  "(2::real) ^ n = 2 powr of_int (int n)"
  "1 / (2::real) ^ n = 2 powr of_int (- int n)"
  by (simp_all add: powr_realpow powr_minus_divide)

lemma round64_value:
  assumes "u = 2 powr of_int j"
    and "2 ^ 52 * u \<le> \<bar>x\<bar>" and "\<bar>x\<bar> < 2 ^ 53 * u"
    and "of_int m - 1 / 2 < x / u" and "x / u < of_int m + 1 / 2"
  shows "round64 x = of_int m * u"
  using round64_scaled [OF assms(1-3)] round_half_even_near [OF assms(4,5)] by simp

lemma round64_0 [simp]: "round64 0 = 0"
  by (simp add: round64_def)

lemma round64_1 [simp]: "round64 1 = 1"
  using round64_value [where x = 1 and u = "1 / 2 ^ 52" and j = "- 52" and m = "2 ^ 52"]
    two_powr_int(2) [of 52]
  by simp

lemma round64_4 [simp]: "round64 4 = 4"
  using round64_value [where x = 4 and u = "1 / 2 ^ 50" and j = "- 50" and m = "4 * 2 ^ 50"]
    two_powr_int(2) [of 50]
  by simp

lemma round64_5 [simp]: "round64 5 = 5"
  using round64_value [where x = 5 and u = "1 / 2 ^ 50" and j = "- 50" and m = "5 * 2 ^ 50"]
    two_powr_int(2) [of 50]
  by simp

text \<open>The operations of \<open>1.07 * (1 - 1 / 100)\<close> and the reading of \<open>1.0593\<close>.\<close>

lemma round64_hundredth: "round64 (1 / 100) = 5764607523034235 / 2 ^ 59"
  using round64_value [where x = "1 / 100" and u = "1 / 2 ^ 59" and j = "- 59" and m = 5764607523034235]
    two_powr_int(2) [of 59]
  by simp

lemma round64_99_hundredths:
  "round64 (1 - 5764607523034235 / 2 ^ 59) = 8917127262193582 / 2 ^ 53"
  using round64_value [where x = "1 - 5764607523034235 / 2 ^ 59" and u = "1 / 2 ^ 53" and j = "- 53"
      and m = 8917127262193582]
    two_powr_int(2) [of 53]
  by simp

lemma round64_1_07: "round64 (107 / 100) = 4818851601286431 / 2 ^ 52"
  using round64_value [where x = "107 / 100" and u = "1 / 2 ^ 52" and j = "- 52" and m = 4818851601286431]
    two_powr_int(2) [of 52]
  by simp

lemma round64_1_0593: "round64 (10593 / 10000) = 4770663085273566 / 2 ^ 52"
  using round64_value [where x = "10593 / 10000" and u = "1 / 2 ^ 52" and j = "- 52" and m = 4770663085273566]
    two_powr_int(2) [of 52]
  by simp

lemma round64_product:
  "round64 (4818851601286431 / 2 ^ 52 * (8917127262193582 / 2 ^ 53)) = 4770663085273567 / 2 ^ 52"
  using round64_value [where x = "4818851601286431 / 2 ^ 52 * (8917127262193582 / 2 ^ 53)"
      and u = "1 / 2 ^ 52" and j = "- 52" and m = 4770663085273567]
    two_powr_int(2) [of 52]
  by simp

lemma min_accepted_1_07:
  "round64 (round64 (107 / 100) * round64 (1 - round64 (1 / 100))) = 4770663085273567 / 2 ^ 52"
  by (simp only: round64_hundredth round64_99_hundredths round64_1_07 round64_product)

section \<open>Facts about lookups\<close>

lemma findOne_Some:
  "findOne P xs = Some (i, x) \<Longrightarrow> i < length xs \<and> xs ! i = x \<and> P x"
proof (induction xs arbitrary: i x)
  case Nil
  then show ?case by simp
next
  case (Cons a xs)
  show ?case
  proof (cases "P a")
    case True
    with Cons.prems show ?thesis by simp
  next
    case False
    with Cons.prems obtain j where j: "findOne P xs = Some (j, x)" "i = Suc j"
      by (auto split: option.splits)
    from Cons.IH [OF j(1)] j(2) show ?thesis by simp
  qed
qed

lemma update_row_nth: "i < length rows \<Longrightarrow> update_row i f rows ! i = f (rows ! i)"
  by (simp add: update_row_def)

lemma update_row_length [simp]: "length (update_row i f rows) = length rows"
  by (simp add: update_row_def)

lemma update_row_twice:
  "update_row i g (update_row i f rows) = update_row i (\<lambda>r. g (f r)) rows"
  by (cases "i < length rows") (simp_all add: update_row_def not_less list_update_beyond)

lemma map_update_row:
  "(\<And>r. f (g r) = f r) \<Longrightarrow> map f (update_row i g rows) = map f rows"
  by (cases "i < length rows") (simp_all add: update_row_def map_update list_update_beyond not_less
      list_update_same_conv)

lemma findOne_same_keys:
  "findOne (\<lambda>r. f r = v) xs = Some (k, x) \<Longrightarrow> map f ys = map f xs
   \<Longrightarrow> findOne (\<lambda>r. f r = v) ys = Some (k, ys ! k)"
proof (induction xs arbitrary: ys k x)
  case Nil
  then show ?case by simp
next
  case (Cons a xs)
  from Cons.prems(2) obtain b ys' where ys: "ys = b # ys'" "f b = f a" "map f ys' = map f xs"
    by (cases ys) auto
  show ?case
  proof (cases "f a = v")
    case True
    with Cons.prems(1) ys show ?thesis by simp
  next
    case False
    with Cons.prems(1) obtain j where j: "findOne (\<lambda>r. f r = v) xs = Some (j, x)" "k = Suc j"
      by (auto split: option.splits)
    from Cons.IH [OF j(1) ys(3)] False ys j(2) show ?thesis by simp
  qed
qed

lemma payment_update_accepted_order:
  "payment_update_accepted pd \<Longrightarrow> order_update_accepted pd"
  by (simp add: payment_update_accepted_def order_update_accepted_def)

lemma handlePaymentUpdate_order_ids:
  "map order_id (orders (handlePaymentUpdate e orderId pd w)) = map order_id (orders w)"
  by (simp add: handlePaymentUpdate_def createPrintfulOrder_def logged_def send_def Let_def
      map_update_row split: option.splits prod.splits printful_response.splits if_splits)

lemma handlePaymentUpdate_confirmed_requests:
  assumes "findOne (\<lambda>r. order_id r = orderId) (orders w) = Some (k, ord)"
    and "obs_status pd = ''confirmed''"
    and "findOne (\<lambda>p. pay_order_id p = orderId) (payments w) = None \<or> payment_update_accepted pd"
    and "order_update_accepted pd"
  shows "requests (handlePaymentUpdate e orderId pd w) =
         requests w @ CreatePrintfulOrder orderId #
           (case createOrder e of
              PrintfulError m \<Rightarrow> []
            | PrintfulOrder pid \<Rightarrow>
                if fits_varchar 50 pid then [SendOrderConfirmation orderId] else [])"
  using assms findOne_Some [OF assms(1)]
  by (auto simp: handlePaymentUpdate_def createPrintfulOrder_def logged_def send_def Let_def
      split: option.splits prod.splits printful_response.splits)

lemma handlePaymentUpdate_no_payment_row:
  "findOne (\<lambda>p. pay_order_id p = orderId) (payments w) = None
   \<Longrightarrow> payments (handlePaymentUpdate e orderId pd w) = payments w"
  by (simp add: handlePaymentUpdate_def createPrintfulOrder_def logged_def send_def Let_def
      split: option.splits prod.splits printful_response.splits)

lemma handlePaymentUpdate_orders:
  assumes "findOne (\<lambda>r. order_id r = orderId) (orders w) = Some (k, ord)"
  shows "orders (handlePaymentUpdate e orderId pd w) =
     (if obs_status pd = ''confirmed'' then
        (if (findOne (\<lambda>p. pay_order_id p = orderId) (payments w) = None
               \<or> payment_update_accepted pd)
            \<and> order_update_accepted pd then
           (case createOrder e of
              PrintfulError m \<Rightarrow>
                update_row k (\<lambda>r. r\<lparr>payment_status := ''confirmed'',
                                     transaction_hash := written (txHash pd) (transaction_hash r),
                                     order_status := ''paid''\<rparr>) (orders w)
            | PrintfulOrder pid \<Rightarrow>
                if fits_varchar 50 pid then
                  update_row k (\<lambda>r. r\<lparr>payment_status := ''confirmed'',
                                       transaction_hash := written (txHash pd) (transaction_hash r),
                                       order_status := ''paid''\<rparr>
                                      \<lparr>printful_order_id := Some pid,
                                       order_status := ''production''\<rparr>) (orders w)
                else
                  update_row k (\<lambda>r. r\<lparr>payment_status := ''confirmed'',
                                       transaction_hash := written (txHash pd) (transaction_hash r),
                                       order_status := ''paid''\<rparr>) (orders w))
         else orders w)
      else if obs_status pd = ''confirming'' then
        update_row k (\<lambda>r. r\<lparr>payment_status := ''confirming''\<rparr>) (orders w)
      else if obs_status pd = ''expired'' then
        update_row k (\<lambda>r. r\<lparr>payment_status := ''expired'', order_status := ''cancelled''\<rparr>) (orders w)
      else orders w)"
proof (cases "findOne (\<lambda>p. pay_order_id p = orderId) (payments w)")
  case None
  with assms show ?thesis
    by (simp add: handlePaymentUpdate_def createPrintfulOrder_def logged_def send_def Let_def
        update_row_twice split: printful_response.splits)
next
  case (Some ip)
  obtain i p where ip: "ip = (i, p)" by (cases ip)
  from Some ip assms show ?thesis
    by (simp add: handlePaymentUpdate_def createPrintfulOrder_def logged_def send_def Let_def
        update_row_twice split: printful_response.splits)
qed

lemma handlePaymentUpdate_payments:
  assumes "findOne (\<lambda>r. order_id r = orderId) (orders w) = Some (k, ord)"
    and "findOne (\<lambda>p. pay_order_id p = orderId) (payments w) = Some (i, p)"
  shows "payments (handlePaymentUpdate e orderId pd w) =
     (if obs_status pd = ''confirmed'' then
        (if payment_update_accepted pd then
           update_row i (\<lambda>r. r\<lparr>status := ''confirmed'',
                                received_amount := written (received pd) (received_amount r),
                                pay_transaction_hash := written (txHash pd) (pay_transaction_hash r),
                                confirmations := written (obs_confirmations pd) (confirmations r),
                                confirmed_at := Some (now e)\<rparr>) (payments w)
         else payments w)
      else if obs_status pd = ''confirming'' then
        update_row i (\<lambda>r. r\<lparr>status := ''confirming'', detected_at := Some (now e)\<rparr>) (payments w)
      else if obs_status pd = ''expired'' then
        update_row i (\<lambda>r. r\<lparr>status := ''expired''\<rparr>) (payments w)
      else payments w)"
  using assms
  by (simp add: handlePaymentUpdate_def createPrintfulOrder_def logged_def send_def Let_def
      split: printful_response.splits)

section \<open>Facts about the monitor registry\<close>

lemma monitors_ok_live:
  "monitors_ok w \<Longrightarrow> timers w h = Some tm \<Longrightarrow>
   h < next_handle w
   \<and> (\<exists>i t. monitoredAddresses w (timer_order tm) = Some (i, t) \<and> (h = i \<or> h = t))"
  by (simp add: monitors_ok_def)

lemma monitors_ok_registered:
  "monitors_ok w \<Longrightarrow> monitoredAddresses w oid = Some (i, t) \<Longrightarrow>
   i < next_handle w \<and> t < next_handle w"
  by (simp add: monitors_ok_def)

lemma monitors_okI:
  assumes "\<And>h tm. timers w h = Some tm \<Longrightarrow>
             h < next_handle w
             \<and> (\<exists>i t. monitoredAddresses w (timer_order tm) = Some (i, t) \<and> (h = i \<or> h = t))"
    and "\<And>oid i t. monitoredAddresses w oid = Some (i, t) \<Longrightarrow>
             i < next_handle w \<and> t < next_handle w"
  shows "monitors_ok w"
  unfolding monitors_ok_def using assms by blast

lemma stopMonitoring_next_handle: "next_handle (stopMonitoring orderId w) = next_handle w"
  by (simp add: stopMonitoring_def logged_def split: option.splits)

lemma stopMonitoring_entry: "monitoredAddresses (stopMonitoring orderId w) orderId = None"
  by (simp add: stopMonitoring_def logged_def split: option.splits)

lemma stopMonitoring_tables:
  "orders (stopMonitoring orderId w) = orders w"
  "payments (stopMonitoring orderId w) = payments w"
  "requests (stopMonitoring orderId w) = requests w"
  by (simp_all add: stopMonitoring_def logged_def split: option.splits)

lemma stopMonitoring_timers_of:
  assumes "monitors_ok w"
  shows "timers_of (stopMonitoring orderId w) orderId = {}"
proof (cases "monitoredAddresses w orderId")
  case None
  have "timer_order tm \<noteq> orderId" if "timers w h = Some tm" for h tm
  proof -
    from assms that obtain i t where "monitoredAddresses w (timer_order tm) = Some (i, t)"
      unfolding monitors_ok_def by blast
    with None show ?thesis by auto
  qed
  with None show ?thesis
    by (auto simp: stopMonitoring_def timers_of_def)
next
  case (Some it)
  obtain i t where it: "it = (i, t)" by (cases it)
  have "\<And>h tm. timers w h = Some tm \<Longrightarrow> timer_order tm = orderId \<Longrightarrow> h = i \<or> h = t"
    using assms Some it unfolding monitors_ok_def by fastforce
  with Some it show ?thesis
    by (auto simp: stopMonitoring_def timers_of_def logged_def)
qed

lemma stopMonitoring_ok:
  assumes "monitors_ok w"
  shows "monitors_ok (stopMonitoring orderId w)"
proof (cases "monitoredAddresses w orderId")
  case None
  with assms show ?thesis by (simp add: stopMonitoring_def)
next
  case (Some it)
  obtain i t where it: "it = (i, t)" by (cases it)
  let ?w = "stopMonitoring orderId w"
  have tm: "timers ?w = ((timers w)(i := None))(t := None)"
    and reg: "monitoredAddresses ?w = (monitoredAddresses w)(orderId := None)"
    and nh: "next_handle ?w = next_handle w"
    using Some it by (simp_all add: stopMonitoring_def logged_def)
  have live: "h < next_handle ?w
      \<and> (\<exists>i' t'. monitoredAddresses ?w (timer_order x) = Some (i', t') \<and> (h = i' \<or> h = t'))"
    if "timers ?w h = Some x" for h x
  proof -
    from that tm have h: "h \<noteq> i" "h \<noteq> t" "timers w h = Some x"
      by (auto split: if_splits)
    from assms h(3) obtain i' t' where r: "h < next_handle w"
      "monitoredAddresses w (timer_order x) = Some (i', t')" "h = i' \<or> h = t'"
      unfolding monitors_ok_def by blast
    from r(2,3) h(1,2) Some it have "timer_order x \<noteq> orderId" by auto
    with r reg nh show ?thesis by auto
  qed
  have registered: "i' < next_handle ?w \<and> t' < next_handle ?w"
    if "monitoredAddresses ?w oid = Some (i', t')" for oid i' t'
  proof -
    from that reg have "monitoredAddresses w oid = Some (i', t')"
      by (auto split: if_splits)
    with assms nh show ?thesis unfolding monitors_ok_def by auto
  qed
  from live registered show ?thesis unfolding monitors_ok_def by blast
qed

text \<open>
  The agreement of registry and timers holds when nothing is monitored and is
  kept by both operations of the service.
\<close>

lemma monitors_ok_initially:
  "timers w = Map.empty \<Longrightarrow> monitoredAddresses w = Map.empty \<Longrightarrow> monitors_ok w"
  by (simp add: monitors_ok_def)

lemma startMonitoring_ok:
  assumes "monitors_ok w"
  shows "monitors_ok (startMonitoring address expectedAmount orderId timeoutMinutes w)"
proof (rule monitors_okI)
  let ?w0 = "stopMonitoring orderId w"
  let ?n = "next_handle w"
  let ?w' = "startMonitoring address expectedAmount orderId timeoutMinutes w"
  have ok0: "monitors_ok ?w0" by (rule stopMonitoring_ok [OF assms])
  have nh0: "next_handle ?w0 = ?n" by (rule stopMonitoring_next_handle)
  have none0: "monitoredAddresses ?w0 orderId = None" by (rule stopMonitoring_entry)
  have tm: "timers ?w' = (timers ?w0)(?n \<mapsto> CheckInterval orderId, Suc ?n \<mapsto> ExpiryTimeout orderId)"
    by (simp add: startMonitoring_def Let_def logged_def nh0)
  have reg: "monitoredAddresses ?w' = (monitoredAddresses ?w0)(orderId \<mapsto> (?n, Suc ?n))"
    by (simp add: startMonitoring_def Let_def logged_def nh0)
  have nh: "next_handle ?w' = Suc (Suc ?n)"
    by (simp add: startMonitoring_def Let_def logged_def nh0)
  show "h < next_handle ?w'
      \<and> (\<exists>i t. monitoredAddresses ?w' (timer_order x) = Some (i, t) \<and> (h = i \<or> h = t))"
    if live: "timers ?w' h = Some x" for h x
  proof (cases "h = ?n \<or> h = Suc ?n")
    case True
    with live tm have "timer_order x = orderId" by (auto split: if_splits)
    with True reg nh show ?thesis by auto
  next
    case False
    with live tm have old: "timers ?w0 h = Some x" by simp
    from monitors_ok_live [OF ok0 old] nh0 obtain i t where r: "h < ?n"
      "monitoredAddresses ?w0 (timer_order x) = Some (i, t)" "h = i \<or> h = t"
      by auto
    from r(2) none0 have "timer_order x \<noteq> orderId" by auto
    with r reg nh show ?thesis by auto
  qed
  show "i < next_handle ?w' \<and> t < next_handle ?w'"
    if entry: "monitoredAddresses ?w' oid = Some (i, t)" for oid i t
  proof (cases "oid = orderId")
    case True
    with entry reg nh show ?thesis by auto
  next
    case False
    with entry reg have "monitoredAddresses ?w0 oid = Some (i, t)" by simp
    from monitors_ok_registered [OF ok0 this] nh0 nh show ?thesis by simp
  qed
qed

section \<open>Facts about the bulk update of the sweep\<close>

lemma update_row_Cons_Suc: "update_row (Suc j) g (a # xs) = a # update_row j g xs"
  by (simp add: update_row_def)

lemma bulk_update_absent:
  "v \<notin> f ` set xs \<Longrightarrow> map (\<lambda>r. if f r = v then g r else r) xs = xs"
  by (induction xs) auto

lemma bulk_update_unique:
  "distinct (map f xs) \<Longrightarrow> findOne (\<lambda>r. f r = v) xs = Some (k, x)
   \<Longrightarrow> map (\<lambda>r. if f r = v then g r else r) xs = update_row k g xs"
proof (induction xs arbitrary: k)
  case Nil
  then show ?case by simp
next
  case (Cons a xs)
  show ?case
  proof (cases "f a = v")
    case True
    with Cons.prems have k: "k = 0" and absent: "v \<notin> f ` set xs" by auto
    from True k bulk_update_absent [OF absent, of g] show ?thesis
      by (simp add: update_row_def)
  next
    case False
    with Cons.prems(2) obtain j where j: "findOne (\<lambda>r. f r = v) xs = Some (j, x)" "k = Suc j"
      by (auto split: option.splits)
    from Cons.prems(1) have "distinct (map f xs)" by simp
    from Cons.IH [OF this j(1)] False j(2) show ?thesis
      by (simp add: update_row_Cons_Suc)
  qed
qed

lemma handlePaymentUpdate_monitors:
  "monitoredAddresses (handlePaymentUpdate e orderId pd w) = monitoredAddresses w"
  "timers (handlePaymentUpdate e orderId pd w) = timers w"
  by (simp_all add: handlePaymentUpdate_def createPrintfulOrder_def logged_def send_def Let_def
      split: option.splits prod.splits printful_response.splits if_splits)

section \<open>Facts about the live timeout\<close>

lemma handlePaymentUpdate_reads_tables:
  assumes "orders w1 = orders w" and "payments w1 = payments w" and "requests w1 = requests w"
  shows "orders (handlePaymentUpdate e orderId pd w1) = orders (handlePaymentUpdate e orderId pd w)
       \<and> payments (handlePaymentUpdate e orderId pd w1) = payments (handlePaymentUpdate e orderId pd w)
       \<and> requests (handlePaymentUpdate e orderId pd w1) = requests (handlePaymentUpdate e orderId pd w)"
proof (cases "findOne (\<lambda>r. order_id r = orderId) (orders w)")
  case None
  with assms show ?thesis by (simp add: handlePaymentUpdate_def logged_def)
next
  case (Some kord)
  obtain k ord where kord: "kord = (k, ord)" by (cases kord)
  show ?thesis
  proof (cases "findOne (\<lambda>p. pay_order_id p = orderId) (payments w)")
    case None
    with Some kord assms show ?thesis
      by (cases "createOrder e")
        (simp_all add: handlePaymentUpdate_def createPrintfulOrder_def logged_def send_def Let_def)
  next
    case (Some ip)
    obtain i p where ip: "ip = (i, p)" by (cases ip)
    from Some ip \<open>findOne (\<lambda>r. order_id r = orderId) (orders w) = Some kord\<close> kord assms
    show ?thesis
      by (cases "createOrder e")
        (simp_all add: handlePaymentUpdate_def createPrintfulOrder_def logged_def send_def Let_def)
  qed
qed

lemma timeout_fired_tables:
  "orders (timeout_fired e orderId w) = orders (handlePaymentUpdate e orderId expired_observation w)"
  "payments (timeout_fired e orderId w) = payments (handlePaymentUpdate e orderId expired_observation w)"
  "requests (timeout_fired e orderId w) = requests (handlePaymentUpdate e orderId expired_observation w)"
  using handlePaymentUpdate_reads_tables [OF stopMonitoring_tables, where e = e and orderId = orderId
      and pd = expired_observation]
  by (simp_all add: timeout_fired_def)

section \<open>Observations that are none of the three\<close>

text \<open>
  C10.  An observation whose status is none of \<open>confirmed\<close>, \<open>confirming\<close> and
  \<open>expired\<close> changes neither table, sends no request (no fulfilment creation, no
  notification), and leaves the monitor registry and its timers as they are:
  the state is returned as it was, but for the error logged when the order does
  not exist.
\<close>

theorem handlePaymentUpdate_other_status_frame:
  assumes "obs_status pd \<noteq> ''confirmed''"
    and "obs_status pd \<noteq> ''confirming''"
    and "obs_status pd \<noteq> ''expired''"
  shows "orders (handlePaymentUpdate e orderId pd w) = orders w
       \<and> payments (handlePaymentUpdate e orderId pd w) = payments w
       \<and> requests (handlePaymentUpdate e orderId pd w) = requests w
       \<and> monitoredAddresses (handlePaymentUpdate e orderId pd w) = monitoredAddresses w
       \<and> timers (handlePaymentUpdate e orderId pd w) = timers w
       \<and> handlePaymentUpdate e orderId pd w
           = (case findOne (\<lambda>r. order_id r = orderId) (orders w) of
                None \<Rightarrow> logged (LogError ''Order not found for payment update'') w
              | Some found \<Rightarrow> w)"
  using assms
  by (simp add: handlePaymentUpdate_def logged_def split: option.splits prod.splits)

theorem handlePaymentUpdate_other_status_frame_witness:
  "obs_status detected_observation \<noteq> ''confirmed''
   \<and> obs_status detected_observation \<noteq> ''confirming''
   \<and> obs_status detected_observation \<noteq> ''expired''
   \<and> orders (handlePaymentUpdate printful_ok ''AA-2024-000001'' detected_observation sample_world)
       = orders sample_world
   \<and> payments (handlePaymentUpdate printful_ok ''AA-2024-000001'' detected_observation sample_world)
       = payments sample_world
   \<and> requests (handlePaymentUpdate printful_ok ''AA-2024-000001'' detected_observation sample_world)
       = requests sample_world"
proof -
  have other: "obs_status detected_observation \<noteq> ''confirmed''"
    "obs_status detected_observation \<noteq> ''confirming''"
    "obs_status detected_observation \<noteq> ''expired''"
    by (simp_all add: detected_observation_def)
  from handlePaymentUpdate_other_status_frame
    [OF other, of printful_ok "''AA-2024-000001''" sample_world] other
  show ?thesis by blast
qed

section \<open>Fulfilment failure\<close>

text \<open>
  C6.  When \<open>createPrintfulOrder\<close> fails after a \<open>confirmed\<close> observation has been
  applied (its writes were accepted), the order keeps \<open>payment_status = confirmed\<close>
  and \<open>order_status = paid\<close> and the payment record keeps \<open>status = confirmed\<close>;
  the failure is logged, the one creation request is all that was sent, and
  nothing is rolled back.
\<close>

theorem fulfilment_failure_keeps_payment_confirmed:
  assumes found: "findOne (\<lambda>r. order_id r = orderId) (orders w) = Some (k, ord)"
    and conf: "obs_status pd = ''confirmed''"
    and applied:
      "findOne (\<lambda>p. pay_order_id p = orderId) (payments w) = None \<or> payment_update_accepted pd"
      "order_update_accepted pd"
    and fails: "createOrder e = PrintfulError msg"
  shows "payment_status (orders (handlePaymentUpdate e orderId pd w) ! k) = ''confirmed''
       \<and> order_status (orders (handlePaymentUpdate e orderId pd w) ! k) = ''paid''
       \<and> (case findOne (\<lambda>p. pay_order_id p = orderId) (payments w) of
            None \<Rightarrow> payments (handlePaymentUpdate e orderId pd w) = payments w
          | Some (i, p) \<Rightarrow> status (payments (handlePaymentUpdate e orderId pd w) ! i) = ''confirmed'')
       \<and> LogError ''Printful order creation failed'' \<in> set (logs (handlePaymentUpdate e orderId pd w))
       \<and> requests (handlePaymentUpdate e orderId pd w) = requests w @ [CreatePrintfulOrder orderId]"
proof -
  from findOne_Some [OF found] have k: "k < length (orders w)" and oid: "order_id ord = orderId"
    by simp_all
  show ?thesis
  proof (cases "findOne (\<lambda>p. pay_order_id p = orderId) (payments w)")
    case None
    with found conf fails applied k oid show ?thesis
      by (simp add: handlePaymentUpdate_def createPrintfulOrder_def logged_def send_def
          update_row_nth)
  next
    case (Some ip)
    obtain i p where ip: "ip = (i, p)" by (cases ip)
    from findOne_Some [OF Some [unfolded ip]] have i: "i < length (payments w)" by simp
    with Some ip found conf fails applied k oid show ?thesis
      by (simp add: handlePaymentUpdate_def createPrintfulOrder_def logged_def send_def
          update_row_nth)
  qed
qed

theorem fulfilment_failure_keeps_payment_confirmed_witness:
  "payment_update_accepted confirmed_observation
   \<and> payment_status (orders (handlePaymentUpdate printful_down ''AA-2024-000001'' confirmed_observation sample_world) ! 0) = ''confirmed''
   \<and> order_status (orders (handlePaymentUpdate printful_down ''AA-2024-000001'' confirmed_observation sample_world) ! 0) = ''paid''
   \<and> status (payments (handlePaymentUpdate printful_down ''AA-2024-000001'' confirmed_observation sample_world) ! 0) = ''confirmed''"
proof -
  have f: "findOne (\<lambda>r. order_id r = ''AA-2024-000001'') (orders sample_world) = Some (0, sample_order)"
    by (simp add: sample_world_def sample_order_def)
  have p: "findOne (\<lambda>p. pay_order_id p = ''AA-2024-000001'') (payments sample_world) = Some (0, sample_payment)"
    by (simp add: sample_world_def sample_payment_def)
  have c: "obs_status confirmed_observation = ''confirmed''"
    by (simp add: confirmed_observation_def)
  have a: "payment_update_accepted confirmed_observation"
    by (simp add: confirmed_observation_def payment_update_accepted_def fits_decimal_20_8_def
        fits_varchar_def fits_integer_min_0_def)
  have d: "createOrder printful_down = PrintfulError ''timeout''"
    by (simp add: printful_down_def)
  from fulfilment_failure_keeps_payment_confirmed
    [OF f c disjI2 [OF a] payment_update_accepted_order [OF a] d] p a
  show ?thesis by simp
qed

section \<open>Observations on a confirmed order\<close>

text \<open>
  C1 (as the code has it).  \<open>handlePaymentUpdate\<close> never reads the current
  status: for an order whose \<open>payment_status\<close> is \<open>confirmed\<close>, a further
  \<open>confirmed\<close> observation leaves it \<open>confirmed\<close>, a \<open>confirming\<close> observation sets
  it to \<open>confirming\<close>, and an \<open>expired\<close> observation sets it to \<open>expired\<close> and the
  order to \<open>cancelled\<close>.
\<close>

theorem confirmed_order_observations_applied:
  assumes found: "findOne (\<lambda>r. order_id r = orderId) (orders w) = Some (k, ord)"
    and conf: "payment_status ord = ''confirmed''"
  shows "payment_status (orders (handlePaymentUpdate e orderId (pd\<lparr>obs_status := ''confirmed''\<rparr>) w) ! k)
           = ''confirmed''
       \<and> payment_status (orders (handlePaymentUpdate e orderId (pd\<lparr>obs_status := ''confirming''\<rparr>) w) ! k)
           = ''confirming''
       \<and> payment_status (orders (handlePaymentUpdate e orderId (pd\<lparr>obs_status := ''expired''\<rparr>) w) ! k)
           = ''expired''
       \<and> order_status (orders (handlePaymentUpdate e orderId (pd\<lparr>obs_status := ''expired''\<rparr>) w) ! k)
           = ''cancelled''"
proof -
  from findOne_Some [OF found] have k: "k < length (orders w)" and row: "orders w ! k = ord"
    by simp_all
  have again:
    "payment_status (orders (handlePaymentUpdate e orderId (pd\<lparr>obs_status := ''confirmed''\<rparr>) w) ! k)
       = ''confirmed''"
    using k row conf
    by (cases "createOrder e")
      (simp_all add: handlePaymentUpdate_orders [OF found] update_row_nth)
  have others:
    "payment_status (orders (handlePaymentUpdate e orderId (pd\<lparr>obs_status := ''confirming''\<rparr>) w) ! k)
       = ''confirming''"
    "payment_status (orders (handlePaymentUpdate e orderId (pd\<lparr>obs_status := ''expired''\<rparr>) w) ! k)
       = ''expired''"
    "order_status (orders (handlePaymentUpdate e orderId (pd\<lparr>obs_status := ''expired''\<rparr>) w) ! k)
       = ''cancelled''"
    using k by (simp_all add: handlePaymentUpdate_orders [OF found] update_row_nth)
  from again others show ?thesis by simp
qed

theorem confirmed_order_observations_applied_witness:
  "payment_status (orders (handlePaymentUpdate printful_ok ''AA-2024-000001''
       (confirming_observation\<lparr>obs_status := ''confirmed''\<rparr>) confirmed_world) ! 0) = ''confirmed''
   \<and> payment_status (orders (handlePaymentUpdate printful_ok ''AA-2024-000001''
       (confirming_observation\<lparr>obs_status := ''confirming''\<rparr>) confirmed_world) ! 0) = ''confirming''
   \<and> payment_status (orders (handlePaymentUpdate printful_ok ''AA-2024-000001''
       (confirming_observation\<lparr>obs_status := ''expired''\<rparr>) confirmed_world) ! 0) = ''expired''
   \<and> order_status (orders (handlePaymentUpdate printful_ok ''AA-2024-000001''
       (confirming_observation\<lparr>obs_status := ''expired''\<rparr>) confirmed_world) ! 0) = ''cancelled''"
proof -
  have f: "findOne (\<lambda>r. order_id r = ''AA-2024-000001'') (orders confirmed_world)
           = Some (0, hd (orders confirmed_world))"
    by (simp add: confirmed_world_def sample_order_def)
  have c: "payment_status (hd (orders confirmed_world)) = ''confirmed''"
    by (simp add: confirmed_world_def)
  from confirmed_order_observations_applied [OF f c, of printful_ok confirming_observation]
  show ?thesis by simp
qed

text \<open>A late \<open>expired\<close> observation on a confirmed, already produced order cancels it.\<close>

theorem late_expired_reverts_confirmed_counterexample:
  "payment_status (orders confirmed_world ! 0) = ''confirmed''
   \<and> payment_status (orders (handlePaymentUpdate printful_ok ''AA-2024-000001'' expired_observation confirmed_world) ! 0)
       = ''expired''
   \<and> order_status (orders (handlePaymentUpdate printful_ok ''AA-2024-000001'' expired_observation confirmed_world) ! 0)
       = ''cancelled''"
  by (simp add: handlePaymentUpdate_def confirmed_world_def sample_order_def sample_payment_def
      expired_observation_def logged_def send_def update_row_def)

section \<open>Redelivery of a confirmed observation\<close>

text \<open>
  C2 (as the code has it).  Every application of a \<open>confirmed\<close> observation to an
  existing order, when the values it carries are accepted by the payment and
  order tables, submits the fulfilment-order creation once, whether or not the
  order already has a \<open>printful_order_id\<close>: after a redelivery two more creation
  requests have been sent than before the first delivery.
\<close>

theorem confirmed_redelivery_submits_again:
  assumes found: "findOne (\<lambda>r. order_id r = orderId) (orders w) = Some (k, ord)"
    and conf: "obs_status pd = ''confirmed''"
    and accepted:
      "findOne (\<lambda>p. pay_order_id p = orderId) (payments w) = None \<or> payment_update_accepted pd"
      "order_update_accepted pd"
  shows "count_list (requests (handlePaymentUpdate e2 orderId pd (handlePaymentUpdate e1 orderId pd w)))
           (CreatePrintfulOrder orderId)
         = count_list (requests w) (CreatePrintfulOrder orderId) + 2"
proof -
  let ?w1 = "handlePaymentUpdate e1 orderId pd w"
  have found1: "findOne (\<lambda>r. order_id r = orderId) (orders ?w1) = Some (k, orders ?w1 ! k)"
    by (rule findOne_same_keys [OF found handlePaymentUpdate_order_ids])
  have accepted1:
    "findOne (\<lambda>p. pay_order_id p = orderId) (payments ?w1) = None \<or> payment_update_accepted pd"
    using accepted(1) by (auto simp: handlePaymentUpdate_no_payment_row)
  have r1: "count_list (requests ?w1) (CreatePrintfulOrder orderId)
            = count_list (requests w) (CreatePrintfulOrder orderId) + 1"
    by (simp add: handlePaymentUpdate_confirmed_requests [OF found conf accepted]
        split: printful_response.splits)
  have r2: "count_list (requests (handlePaymentUpdate e2 orderId pd ?w1)) (CreatePrintfulOrder orderId)
            = count_list (requests ?w1) (CreatePrintfulOrder orderId) + 1"
    by (simp add: handlePaymentUpdate_confirmed_requests [OF found1 conf accepted1 accepted(2)]
        split: printful_response.splits)
  from r1 r2 show ?thesis by simp
qed

theorem confirmed_redelivery_submits_again_witness:
  "payment_update_accepted confirmed_observation
   \<and> count_list (requests (handlePaymentUpdate printful_down ''AA-2024-000001'' confirmed_observation
       (handlePaymentUpdate printful_ok ''AA-2024-000001'' confirmed_observation sample_world)))
     (CreatePrintfulOrder ''AA-2024-000001'') = 2"
proof -
  have f: "findOne (\<lambda>r. order_id r = ''AA-2024-000001'') (orders sample_world) = Some (0, sample_order)"
    by (simp add: sample_world_def sample_order_def)
  have c: "obs_status confirmed_observation = ''confirmed''"
    by (simp add: confirmed_observation_def)
  have a: "payment_update_accepted confirmed_observation"
    by (simp add: confirmed_observation_def payment_update_accepted_def fits_decimal_20_8_def
        fits_varchar_def fits_integer_min_0_def)
  from confirmed_redelivery_submits_again
    [OF f c disjI2 [OF a] payment_update_accepted_order [OF a], of printful_down printful_ok] a
  show ?thesis by (simp add: sample_world_def)
qed

text \<open>
  The second delivery finds \<open>printful_order_id\<close> set by the first and submits the
  creation again, with a second confirmation e-mail.
\<close>

theorem confirmed_redelivery_counterexample:
  "printful_order_id (orders (handlePaymentUpdate printful_ok ''AA-2024-000001'' confirmed_observation sample_world) ! 0)
     = Some ''12345''
   \<and> requests (handlePaymentUpdate printful_ok ''AA-2024-000001'' confirmed_observation
        (handlePaymentUpdate printful_ok ''AA-2024-000001'' confirmed_observation sample_world))
     = [CreatePrintfulOrder ''AA-2024-000001'', SendOrderConfirmation ''AA-2024-000001'',
        CreatePrintfulOrder ''AA-2024-000001'', SendOrderConfirmation ''AA-2024-000001'']"
  by (simp add: handlePaymentUpdate_def createPrintfulOrder_def sample_world_def sample_order_def
      sample_payment_def confirmed_observation_def printful_ok_def logged_def send_def update_row_def
      payment_update_accepted_def order_update_accepted_def fits_decimal_20_8_def
      fits_varchar_def fits_integer_min_0_def)

text \<open>
  A confirmation whose values the payment table refuses is not applied at all:
  the handler logs, the tables stay as they were and no request is sent.
\<close>

lemma refused_confirmation_applies_nothing:
  assumes "findOne (\<lambda>r. order_id r = orderId) (orders w) = Some (k, ord)"
    and "findOne (\<lambda>p. pay_order_id p = orderId) (payments w) = Some (i, p)"
    and "obs_status pd = ''confirmed''"
    and "\<not> payment_update_accepted pd"
  shows "handlePaymentUpdate e orderId pd w = logged (LogError ''Payment update handling failed'') w"
  using assms by (simp add: handlePaymentUpdate_def)

lemma refused_confirmation_at_minus_one:
  "\<not> payment_update_accepted refused_observation
   \<and> requests (handlePaymentUpdate printful_ok ''AA-2024-000001'' refused_observation sample_world) = []
   \<and> payments (handlePaymentUpdate printful_ok ''AA-2024-000001'' refused_observation sample_world)
       = payments sample_world
   \<and> orders (handlePaymentUpdate printful_ok ''AA-2024-000001'' refused_observation sample_world)
       = orders sample_world"
  by (simp add: handlePaymentUpdate_def refused_observation_def confirmed_observation_def
      payment_update_accepted_def fits_integer_min_0_def sample_world_def sample_order_def
      sample_payment_def logged_def)

section \<open>Observations on an expired payment\<close>

text \<open>
  C3 (as the code has it).  \<open>handlePaymentUpdate\<close> applies an observation to an
  expired payment as to any other: \<open>confirming\<close> moves the payment to
  \<open>confirming\<close>, and \<open>confirmed\<close>, when the values it carries are accepted by the
  payment table, moves it to \<open>confirmed\<close>.  The admin action \<open>verifyPayment\<close> moves
  it to \<open>confirmed\<close> as well (answer 200) when the order is not already
  \<open>confirmed\<close> or \<open>force\<close> is set and the hash and amount it writes fit their
  columns, so it is not the only way out of \<open>expired\<close>.
\<close>

theorem expired_payment_observations_applied:
  assumes found: "findOne (\<lambda>r. order_id r = orderId) (orders w) = Some (k, ord)"
    and pay: "findOne (\<lambda>p. pay_order_id p = orderId) (payments w) = Some (i, p)"
    and expired: "status p = ''expired''"
    and accepted: "payment_update_accepted pd"
    and allowed: "payment_status ord \<noteq> ''confirmed'' \<or> force body"
    and hash_fits:
      "fits_null (fits_varchar 255) (or_else (body_transaction_hash body) (pay_transaction_hash p))"
      "fits_null (fits_varchar 255) (or_else (body_transaction_hash body) (transaction_hash ord))"
    and amount_fits:
      "fits_decimal_20_8 (case body_amount body of
                            None \<Rightarrow> expected_amount p
                          | Some a \<Rightarrow> if truthy (Some a) then a else expected_amount p)"
  shows "status (payments (handlePaymentUpdate e orderId (pd\<lparr>obs_status := ''confirmed''\<rparr>) w) ! i)
           = ''confirmed''
       \<and> status (payments (handlePaymentUpdate e orderId (pd\<lparr>obs_status := ''confirming''\<rparr>) w) ! i)
           = ''confirming''
       \<and> fst (verifyPayment e orderId body w) = 200
       \<and> status (payments (snd (verifyPayment e orderId body w)) ! i) = ''confirmed''"
proof -
  from findOne_Some [OF pay] have i: "i < length (payments w)" by simp
  have accepted': "payment_update_accepted (pd\<lparr>obs_status := ''confirmed''\<rparr>)"
    using accepted by (simp add: payment_update_accepted_def)
  have auto_path:
    "status (payments (handlePaymentUpdate e orderId (pd\<lparr>obs_status := ''confirmed''\<rparr>) w) ! i)
       = ''confirmed''"
    "status (payments (handlePaymentUpdate e orderId (pd\<lparr>obs_status := ''confirming''\<rparr>) w) ! i)
       = ''confirming''"
    using i accepted'
    by (simp_all add: handlePaymentUpdate_payments [OF found pay] update_row_nth)
  have admin_path:
    "fst (verifyPayment e orderId body w) = 200"
    "status (payments (snd (verifyPayment e orderId body w)) ! i) = ''confirmed''"
    using i found pay allowed hash_fits amount_fits
    by (auto simp: verifyPayment_def logged_def Let_def update_row_nth)
  from auto_path admin_path show ?thesis by simp
qed

theorem expired_payment_observations_applied_witness:
  "payment_update_accepted confirmed_observation
   \<and> status (payments (handlePaymentUpdate printful_ok ''AA-2024-000001''
       (confirmed_observation\<lparr>obs_status := ''confirmed''\<rparr>) expired_world) ! 0) = ''confirmed''
   \<and> status (payments (handlePaymentUpdate printful_ok ''AA-2024-000001''
       (confirmed_observation\<lparr>obs_status := ''confirming''\<rparr>) expired_world) ! 0) = ''confirming''
   \<and> fst (verifyPayment printful_ok ''AA-2024-000001'' verify_plain expired_world) = 200
   \<and> status (payments (snd (verifyPayment printful_ok ''AA-2024-000001'' verify_plain expired_world)) ! 0)
       = ''confirmed''"
proof -
  have f: "findOne (\<lambda>r. order_id r = ''AA-2024-000001'') (orders expired_world)
           = Some (0, hd (orders expired_world))"
    by (simp add: expired_world_def sample_order_def)
  have p: "findOne (\<lambda>p. pay_order_id p = ''AA-2024-000001'') (payments expired_world)
           = Some (0, hd (payments expired_world))"
    by (simp add: expired_world_def sample_payment_def)
  have s: "status (hd (payments expired_world)) = ''expired''"
    by (simp add: expired_world_def)
  have a: "payment_update_accepted confirmed_observation"
    by (simp add: confirmed_observation_def payment_update_accepted_def fits_decimal_20_8_def
        fits_varchar_def fits_integer_min_0_def)
  have m: "payment_status (hd (orders expired_world)) \<noteq> ''confirmed'' \<or> force verify_plain"
    by (simp add: expired_world_def)
  have h: "fits_null (fits_varchar 255)
             (or_else (body_transaction_hash verify_plain)
                (pay_transaction_hash (hd (payments expired_world))))"
    "fits_null (fits_varchar 255)
       (or_else (body_transaction_hash verify_plain) (transaction_hash (hd (orders expired_world))))"
    by (simp_all add: verify_plain_def fits_varchar_def)
  have d: "fits_decimal_20_8
             (case body_amount verify_plain of
                None \<Rightarrow> expected_amount (hd (payments expired_world))
              | Some a \<Rightarrow> if truthy (Some a) then a else expected_amount (hd (payments expired_world)))"
    by (simp add: verify_plain_def expired_world_def sample_payment_def fits_decimal_20_8_def)
  from expired_payment_observations_applied
    [OF f p s a m h d, of printful_ok]
  a show ?thesis by blast
qed

text \<open>
  A \<open>confirmed\<close> observation delivered after expiry reopens the cancelled order:
  the payment leaves \<open>expired\<close> and the order goes to production.
\<close>

theorem late_confirmed_reopens_expired_counterexample:
  "status (payments expired_world ! 0) = ''expired''
   \<and> status (payments (handlePaymentUpdate printful_ok ''AA-2024-000001'' confirmed_observation
        expired_world) ! 0) = ''confirmed''
   \<and> payment_status (orders (handlePaymentUpdate printful_ok ''AA-2024-000001'' confirmed_observation
        expired_world) ! 0) = ''confirmed''
   \<and> order_status (orders (handlePaymentUpdate printful_ok ''AA-2024-000001'' confirmed_observation
        expired_world) ! 0) = ''production''"
  by (simp add: handlePaymentUpdate_def createPrintfulOrder_def expired_world_def sample_order_def
      sample_payment_def confirmed_observation_def printful_ok_def logged_def send_def
      update_row_def payment_update_accepted_def order_update_accepted_def fits_decimal_20_8_def
      fits_varchar_def fits_integer_min_0_def)

section \<open>An observation of 4.0 against an expected 5.0\<close>

text \<open>
  C7 (as the code has it).  For a pending order whose payment expects 5.0, an
  observation reporting 4.0 received is applied by its status alone: no
  observation makes \<open>handlePaymentUpdate\<close> write \<open>underpaid\<close>, and a \<open>confirming\<close>
  observation sets the payment to \<open>confirming\<close>, leaves \<open>order_status\<close> at
  \<open>pending_payment\<close> and sends no request (no fulfilment creation).
\<close>

theorem short_payment_applied_by_status:
  assumes found: "findOne (\<lambda>r. order_id r = orderId) (orders w) = Some (k, ord)"
    and pay: "findOne (\<lambda>p. pay_order_id p = orderId) (payments w) = Some (i, p)"
    and pending_order: "order_status ord = ''pending_payment''"
    and pending_payment: "status p = ''pending''"
    and expected5: "parseFloat (expected_amount p) = 5"
    and received4: "received pd = Value (Number 4)"
  shows "status (payments (handlePaymentUpdate e orderId pd w) ! i) \<noteq> ''underpaid''
       \<and> status (payments (handlePaymentUpdate e orderId (pd\<lparr>obs_status := ''confirming''\<rparr>) w) ! i)
           = ''confirming''
       \<and> order_status (orders (handlePaymentUpdate e orderId (pd\<lparr>obs_status := ''confirming''\<rparr>) w) ! k)
           = ''pending_payment''
       \<and> requests (handlePaymentUpdate e orderId (pd\<lparr>obs_status := ''confirming''\<rparr>) w) = requests w"
proof -
  from findOne_Some [OF pay] have i: "i < length (payments w)" and p: "payments w ! i = p"
    by simp_all
  from findOne_Some [OF found] have k: "k < length (orders w)" and ord: "orders w ! k = ord"
    by simp_all
  have never: "status (payments (handlePaymentUpdate e orderId pd w) ! i) \<noteq> ''underpaid''"
    using i p pending_payment
    by (simp add: handlePaymentUpdate_payments [OF found pay] update_row_nth)
  have st: "status (payments (handlePaymentUpdate e orderId (pd\<lparr>obs_status := ''confirming''\<rparr>) w) ! i)
              = ''confirming''"
    using i by (simp add: handlePaymentUpdate_payments [OF found pay] update_row_nth)
  have os: "order_status (orders (handlePaymentUpdate e orderId (pd\<lparr>obs_status := ''confirming''\<rparr>) w) ! k)
              = ''pending_payment''"
    using k ord pending_order
    by (simp add: handlePaymentUpdate_orders [OF found] update_row_nth)
  have rq: "requests (handlePaymentUpdate e orderId (pd\<lparr>obs_status := ''confirming''\<rparr>) w) = requests w"
    using found by (simp add: handlePaymentUpdate_def logged_def Let_def split: option.splits)
  from never st os rq show ?thesis by simp
qed

theorem short_payment_applied_by_status_witness:
  "status (payments (handlePaymentUpdate printful_ok ''AA-2024-000001'' confirming_observation
       sample_world) ! 0) = ''confirming''
   \<and> order_status (orders (handlePaymentUpdate printful_ok ''AA-2024-000001'' confirming_observation
       sample_world) ! 0) = ''pending_payment''
   \<and> requests (handlePaymentUpdate printful_ok ''AA-2024-000001'' confirming_observation
       sample_world) = []"
proof -
  have f: "findOne (\<lambda>r. order_id r = ''AA-2024-000001'') (orders sample_world) = Some (0, sample_order)"
    by (simp add: sample_world_def sample_order_def)
  have p: "findOne (\<lambda>p. pay_order_id p = ''AA-2024-000001'') (payments sample_world)
           = Some (0, sample_payment)"
    by (simp add: sample_world_def sample_payment_def)
  have hyps: "order_status sample_order = ''pending_payment''" "status sample_payment = ''pending''"
    "parseFloat (expected_amount sample_payment) = 5"
    "received confirming_observation = Value (Number 4)"
    by (simp_all add: sample_order_def sample_payment_def confirming_observation_def)
  have same: "confirming_observation\<lparr>obs_status := ''confirming''\<rparr> = confirming_observation"
    by (simp add: confirming_observation_def)
  from short_payment_applied_by_status [OF f p hyps, of printful_ok] same
  show ?thesis by (simp add: sample_world_def)
qed

text \<open>
  The poll tick that sees 4.0 unconfirmed against 5.0 reports \<open>confirming\<close>, and the
  payment becomes \<open>confirming\<close>; a \<open>confirmed\<close> observation carrying 4.0 confirms the
  payment and requests the fulfilment order.  Neither gives \<open>underpaid\<close>.
\<close>

theorem short_payment_underpaid_counterexample:
  "fst (checkInterval_tick short_wallet 5 ''AA-2024-000001'' sample_world) = Some confirming_observation
   \<and> status (payments (handlePaymentUpdate printful_ok ''AA-2024-000001'' confirming_observation
        sample_world) ! 0) = ''confirming''
   \<and> status (payments (handlePaymentUpdate printful_ok ''AA-2024-000001''
        (confirming_observation\<lparr>obs_status := ''confirmed''\<rparr>) sample_world) ! 0) = ''confirmed''
   \<and> order_status (orders (handlePaymentUpdate printful_ok ''AA-2024-000001''
        (confirming_observation\<lparr>obs_status := ''confirmed''\<rparr>) sample_world) ! 0) = ''production''
   \<and> requests (handlePaymentUpdate printful_ok ''AA-2024-000001''
        (confirming_observation\<lparr>obs_status := ''confirmed''\<rparr>) sample_world)
       = [CreatePrintfulOrder ''AA-2024-000001'', SendOrderConfirmation ''AA-2024-000001'']"
  by (simp add: checkInterval_tick_def checkPayment_def short_wallet_def
      handlePaymentUpdate_def createPrintfulOrder_def sample_world_def sample_order_def
      sample_payment_def confirming_observation_def printful_ok_def logged_def send_def
      update_row_def payment_update_accepted_def order_update_accepted_def fits_decimal_20_8_def
      fits_varchar_def)

section \<open>Amount sufficiency\<close>

text \<open>
  C9 (as the code has it).  \<open>isAmountSufficient(t)\<close> is true exactly when
  \<open>received_amount\<close> is non-null, is not the number 0 (which \<open>!received_amount\<close>
  also rejects) and, computed in binary64 arithmetic, is at least
  \<open>expected_amount \<times> (1 \<minus> t/100)\<close>; the tolerance is a parameter, and omitting it
  means 1 percent.
\<close>

theorem isAmountSufficient_iff:
  "isAmountSufficient p (Some t)
     = (sufficient_in_binary64 p t \<and> received_amount p \<noteq> Some (Number 0))
   \<and> isAmountSufficient p None = isAmountSufficient p (Some 1)"
proof -
  have with_tolerance:
    "isAmountSufficient p (Some t)
       = (sufficient_in_binary64 p t \<and> received_amount p \<noteq> Some (Number 0))"
  proof (cases "received_amount p")
    case None
    then show ?thesis by (simp add: isAmountSufficient_def sufficient_in_binary64_def)
  next
    case (Some a)
    then show ?thesis
      by (cases a) (auto simp: isAmountSufficient_def sufficient_in_binary64_def)
  qed
  have default: "isAmountSufficient p None = isAmountSufficient p (Some 1)"
    by (simp add: isAmountSufficient_def)
  from with_tolerance default show ?thesis by simp
qed

theorem isAmountSufficient_iff_witness:
  "isAmountSufficient (sample_payment\<lparr>received_amount := Some (Number 5)\<rparr>) (Some 0)
   \<and> \<not> isAmountSufficient (sample_payment\<lparr>received_amount := Some (Number 4)\<rparr>) (Some 0)
   \<and> \<not> isAmountSufficient (sample_payment\<lparr>received_amount := Some (Number 0)\<rparr>) (Some 100)"
  using isAmountSufficient_iff [of "sample_payment\<lparr>received_amount := Some (Number 5)\<rparr>" 0]
    isAmountSufficient_iff [of "sample_payment\<lparr>received_amount := Some (Number 4)\<rparr>" 0]
    isAmountSufficient_iff [of "sample_payment\<lparr>received_amount := Some (Number 0)\<rparr>" 100]
  by (simp add: sufficient_in_binary64_def sample_payment_def)

text \<open>
  With a tolerance of 100 percent nothing need be received, and a received
  amount of 0 is non-null and at least \<open>5 \<times> (1 \<minus> 100/100) = 0\<close>, exactly and in
  binary64; the method answers false.  At the bound itself, 1.0593 received for
  1.07 expected with the default tolerance, the exact comparison holds and the
  method answers false: the binary64 product is \<open>1.0593000000000001\<close>.
\<close>

theorem isAmountSufficient_zero_counterexample:
  "received_amount zero_received \<noteq> None
   \<and> sufficient_as_specified zero_received 100
   \<and> sufficient_in_binary64 zero_received 100
   \<and> \<not> isAmountSufficient zero_received (Some 100)
   \<and> sufficient_as_specified at_the_bound 1
   \<and> \<not> isAmountSufficient at_the_bound None"
proof -
  have zero:
    "received_amount zero_received \<noteq> None"
    "sufficient_as_specified zero_received 100"
    "sufficient_in_binary64 zero_received 100"
    "\<not> isAmountSufficient zero_received (Some 100)"
    by (simp_all add: zero_received_def sample_payment_def sufficient_as_specified_def
        sufficient_in_binary64_def isAmountSufficient_def)
  have exact: "sufficient_as_specified at_the_bound 1"
    by (simp add: at_the_bound_def sample_payment_def sufficient_as_specified_def)
  have "isAmountSufficient at_the_bound None
          = (round64 (10593 / 10000)
               \<ge> round64 (round64 (107 / 100) * round64 (1 - round64 (1 / 100))))"
    by (simp add: at_the_bound_def sample_payment_def isAmountSufficient_def)
  then have rounded: "\<not> isAmountSufficient at_the_bound None"
    by (simp add: min_accepted_1_07 round64_1_0593)
  from zero exact rounded show ?thesis by simp
qed

section \<open>Classification of a poll tick\<close>

text \<open>
  C8 (as the code has it).  For a poll tick whose wallet queries all succeed,
  with a positive expected amount: the observation is \<open>confirmed\<close> exactly when
  confirmed-received \<open>\<ge>\<close> expected, it is \<open>confirming\<close> exactly when the payment is
  not complete and the pending amount (unconfirmed total minus
  confirmed-received) is positive, and none is emitted otherwise, in
  particular when nothing has been received yet.
\<close>

theorem checkInterval_tick_classification:
  assumes rec: "getreceived_minconf rpc = RpcResult r"
    and unc: "getreceived_zeroconf rpc = RpcResult u"
    and txs: "listtransactions rpc = RpcResult transactions"
    and positive: "0 < expectedAmount"
  shows "map_option obs_status (fst (checkInterval_tick rpc expectedAmount orderId w))
           = (if parseFloat_or_0 r \<ge> expectedAmount then Some ''confirmed''
              else if parseFloat_or_0 u - parseFloat_or_0 r > 0 then Some ''confirming''
              else None)
       \<and> (parseFloat_or_0 r = 0 \<and> parseFloat_or_0 u = 0
            \<longrightarrow> fst (checkInterval_tick rpc expectedAmount orderId w) = None)"
proof -
  have classes:
    "map_option obs_status (fst (checkInterval_tick rpc expectedAmount orderId w))
       = (if parseFloat_or_0 r \<ge> expectedAmount then Some ''confirmed''
          else if parseFloat_or_0 u - parseFloat_or_0 r > 0 then Some ''confirming''
          else None)"
    using rec unc txs
    by (simp add: checkInterval_tick_def checkPayment_def listTransactions_def Let_def
        round64_sign)
  have silent:
    "parseFloat_or_0 r = 0 \<and> parseFloat_or_0 u = 0
       \<longrightarrow> fst (checkInterval_tick rpc expectedAmount orderId w) = None"
    using rec unc txs positive
    by (simp add: checkInterval_tick_def checkPayment_def listTransactions_def Let_def
        round64_sign)
  from classes silent show ?thesis by simp
qed

theorem checkInterval_tick_classification_witness:
  "map_option obs_status (fst (checkInterval_tick paid_wallet 5 ''AA-2024-000001'' sample_world))
     = Some ''confirmed''
   \<and> map_option obs_status (fst (checkInterval_tick short_wallet 5 ''AA-2024-000001'' sample_world))
     = Some ''confirming''
   \<and> fst (checkInterval_tick silent_wallet 5 ''AA-2024-000001'' sample_world) = None"
  using checkInterval_tick_classification
      [of paid_wallet "Some 5" "Some 5" _ 5 "''AA-2024-000001''" sample_world]
    checkInterval_tick_classification
      [of short_wallet "Some 0" "Some 4" "[]" 5 "''AA-2024-000001''" sample_world]
    checkInterval_tick_classification
      [of silent_wallet "Some 0" "Some 0" "[]" 5 "''AA-2024-000001''" sample_world]
  by (simp add: paid_wallet_def short_wallet_def silent_wallet_def)

text \<open>
  Confirmed-received equals the expected amount, but the transaction lookup that
  precedes the callback fails: the tick emits nothing, and it has already
  removed the monitor.
\<close>

theorem checkInterval_tick_lookup_fails_counterexample:
  "(case fst (checkPayment lookup_down_wallet 5 sample_world) of
      Inl msg \<Rightarrow> False
    | Inr st \<Rightarrow> isComplete st \<and> chk_received st \<ge> chk_expected st)
   \<and> fst (checkInterval_tick lookup_down_wallet 5 ''AA-2024-000001'' sample_world) = None
   \<and> monitoredAddresses (snd (checkInterval_tick lookup_down_wallet 5 ''AA-2024-000001'' sample_world))
        ''AA-2024-000001'' = None"
  by (simp add: checkInterval_tick_def checkPayment_def listTransactions_def stopMonitoring_def
      lookup_down_wallet_def sample_world_def logged_def)

section \<open>One monitor per order\<close>

text \<open>
  C5.  After \<open>startMonitoring\<close> for an order id the registry holds one entry for
  that id, made of a fresh polling interval and a fresh expiry timeout, which
  are the only live timers serving the id: the interval and timeout of a prior
  monitor have been cancelled.  \<open>stopMonitoring\<close> for an id cancels both timers of
  its entry and removes the entry, so that no live timer serves the id.
\<close>

theorem monitor_singleton:
  assumes ok: "monitors_ok w"
  shows "monitoredAddresses (startMonitoring address expectedAmount orderId timeoutMinutes w) orderId
           = Some (next_handle w, Suc (next_handle w))
       \<and> timers (startMonitoring address expectedAmount orderId timeoutMinutes w) (next_handle w)
           = Some (CheckInterval orderId)
       \<and> timers (startMonitoring address expectedAmount orderId timeoutMinutes w) (Suc (next_handle w))
           = Some (ExpiryTimeout orderId)
       \<and> timers_of (startMonitoring address expectedAmount orderId timeoutMinutes w) orderId
           = {next_handle w, Suc (next_handle w)}
       \<and> (case monitoredAddresses w orderId of
            None \<Rightarrow> True
          | Some (i0, t0) \<Rightarrow>
              timers (startMonitoring address expectedAmount orderId timeoutMinutes w) i0 = None
              \<and> timers (startMonitoring address expectedAmount orderId timeoutMinutes w) t0 = None
              \<and> timers (stopMonitoring orderId w) i0 = None
              \<and> timers (stopMonitoring orderId w) t0 = None)
       \<and> monitoredAddresses (stopMonitoring orderId w) orderId = None
       \<and> timers_of (stopMonitoring orderId w) orderId = {}"
proof -
  let ?w0 = "stopMonitoring orderId w"
  let ?n = "next_handle w"
  let ?w' = "startMonitoring address expectedAmount orderId timeoutMinutes w"
  have nh: "next_handle ?w0 = ?n" by (rule stopMonitoring_next_handle)
  have tm: "timers ?w' = (timers ?w0)(?n \<mapsto> CheckInterval orderId, Suc ?n \<mapsto> ExpiryTimeout orderId)"
    by (simp add: startMonitoring_def Let_def logged_def nh)
  have reg: "monitoredAddresses ?w' orderId = Some (?n, Suc ?n)"
    by (simp add: startMonitoring_def Let_def logged_def nh)
  have none0: "timers_of ?w0 orderId = {}" by (rule stopMonitoring_timers_of [OF ok])
  have only: "timers_of ?w' orderId = {?n, Suc ?n}"
  proof
    show "timers_of ?w' orderId \<subseteq> {?n, Suc ?n}"
    proof
      fix h assume "h \<in> timers_of ?w' orderId"
      then obtain x where x: "timers ?w' h = Some x" "timer_order x = orderId"
        by (auto simp: timers_of_def)
      show "h \<in> {?n, Suc ?n}"
      proof (rule ccontr)
        assume "h \<notin> {?n, Suc ?n}"
        with x(1) tm have "timers ?w0 h = Some x" by simp
        with x(2) have "h \<in> timers_of ?w0 orderId" by (auto simp: timers_of_def)
        with none0 show False by simp
      qed
    qed
    show "{?n, Suc ?n} \<subseteq> timers_of ?w' orderId"
      by (auto simp: timers_of_def tm)
  qed
  have prior: "(case monitoredAddresses w orderId of
            None \<Rightarrow> True
          | Some (i0, t0) \<Rightarrow> timers ?w' i0 = None \<and> timers ?w' t0 = None
              \<and> timers ?w0 i0 = None \<and> timers ?w0 t0 = None)"
  proof (cases "monitoredAddresses w orderId")
    case None
    then show ?thesis by simp
  next
    case (Some it)
    obtain i0 t0 where it: "it = (i0, t0)" by (cases it)
    from ok Some it have old: "i0 < ?n" "t0 < ?n" unfolding monitors_ok_def by auto
    have gone: "timers ?w0 i0 = None" "timers ?w0 t0 = None"
      using Some it by (simp_all add: stopMonitoring_def logged_def)
    with old tm Some it show ?thesis by simp
  qed
  from reg tm only prior stopMonitoring_entry [of orderId w] none0 show ?thesis by simp
qed

theorem monitor_singleton_witness:
  "monitors_ok sample_world
   \<and> monitoredAddresses (startMonitoring ''DsAddr'' 5 ''AA-2024-000001'' 60 sample_world)
        ''AA-2024-000001'' = Some (2, 3)
   \<and> timers_of (startMonitoring ''DsAddr'' 5 ''AA-2024-000001'' 60 sample_world) ''AA-2024-000001''
       = {2, 3}
   \<and> timers (startMonitoring ''DsAddr'' 5 ''AA-2024-000001'' 60 sample_world) 0 = None
   \<and> timers (startMonitoring ''DsAddr'' 5 ''AA-2024-000001'' 60 sample_world) 1 = None
   \<and> timers_of (stopMonitoring ''AA-2024-000001'' sample_world) ''AA-2024-000001'' = {}"
proof -
  have ok: "monitors_ok sample_world"
    by (auto simp: monitors_ok_def sample_world_def split: if_splits)
  have nh: "next_handle sample_world = 2" and reg: "monitoredAddresses sample_world ''AA-2024-000001'' = Some (0, 1)"
    by (simp_all add: sample_world_def)
  from monitor_singleton [OF ok, of "''DsAddr''" 5 "''AA-2024-000001''" 60] ok nh reg
  show ?thesis by (simp add: numeral_2_eq_2 numeral_3_eq_3)
qed

section \<open>The two expiry paths\<close>

text \<open>
  What the two paths share.  For a pending payment past its expiry that is the
  payment record of an existing order, the sweep leaves the payment table and
  the order table exactly as routing an \<open>expired\<close> observation through
  \<open>handlePaymentUpdate\<close> does (payment \<open>expired\<close>, order \<open>expired\<close> and \<open>cancelled\<close>), and
  it leaves the monitor registry and the timers exactly as the live monitor's
  timeout does, which stops the monitor before it calls \<open>handlePaymentUpdate\<close>.
\<close>

lemma sweep_matches_live_expiry:
  assumes selected: "findAll_expired (now e) (payments w) = [(i, p)]"
    and pay: "findOne (\<lambda>q. pay_order_id q = pay_order_id p) (payments w) = Some (i, p)"
    and found: "findOne (\<lambda>r. order_id r = pay_order_id p) (orders w) = Some (k, ord)"
    and unique: "distinct (map order_id (orders w))"
  shows "payments (snd (cleanupExpiredPayments e w))
           = payments (handlePaymentUpdate e' (pay_order_id p) expired_observation w)
       \<and> orders (snd (cleanupExpiredPayments e w))
           = orders (handlePaymentUpdate e' (pay_order_id p) expired_observation w)
       \<and> status (payments (snd (cleanupExpiredPayments e w)) ! i) = ''expired''
       \<and> payment_status (orders (snd (cleanupExpiredPayments e w)) ! k) = ''expired''
       \<and> order_status (orders (snd (cleanupExpiredPayments e w)) ! k) = ''cancelled''
       \<and> monitoredAddresses (snd (cleanupExpiredPayments e w))
           = monitoredAddresses (timeout_fired e' (pay_order_id p) w)
       \<and> timers (snd (cleanupExpiredPayments e w))
           = timers (timeout_fired e' (pay_order_id p) w)"
proof -
  let ?oid = "pay_order_id p"
  let ?sweep = "snd (cleanupExpiredPayments e w)"
  let ?live = "handlePaymentUpdate e' ?oid expired_observation w"
  from findOne_Some [OF pay] have i: "i < length (payments w)" by simp
  from findOne_Some [OF found] have k: "k < length (orders w)" by simp
  have sweep_payments:
    "payments ?sweep = update_row i (\<lambda>r. r\<lparr>status := ''expired''\<rparr>) (payments w)"
    by (simp add: cleanupExpiredPayments_def selected expire_payment_def logged_def Let_def
        stopMonitoring_tables)
  have sweep_orders:
    "orders ?sweep
       = update_row k (\<lambda>r. r\<lparr>payment_status := ''expired'', order_status := ''cancelled''\<rparr>) (orders w)"
    by (simp add: cleanupExpiredPayments_def selected expire_payment_def logged_def Let_def
        stopMonitoring_tables bulk_update_unique [OF unique found])
  have live_payments:
    "payments ?live = update_row i (\<lambda>r. r\<lparr>status := ''expired''\<rparr>) (payments w)"
    by (simp add: handlePaymentUpdate_payments [OF found pay] expired_observation_def)
  have live_orders:
    "orders ?live
       = update_row k (\<lambda>r. r\<lparr>payment_status := ''expired'', order_status := ''cancelled''\<rparr>) (orders w)"
    by (simp add: handlePaymentUpdate_orders [OF found] expired_observation_def)
  have sweep_registry:
    "monitoredAddresses ?sweep = monitoredAddresses (stopMonitoring ?oid w)"
    "timers ?sweep = timers (stopMonitoring ?oid w)"
    by (simp_all add: cleanupExpiredPayments_def selected expire_payment_def logged_def Let_def
        stopMonitoring_def split: option.splits)
  have live_registry:
    "monitoredAddresses (timeout_fired e' ?oid w) = monitoredAddresses (stopMonitoring ?oid w)"
    "timers (timeout_fired e' ?oid w) = timers (stopMonitoring ?oid w)"
    by (simp_all add: timeout_fired_def handlePaymentUpdate_monitors)
  from sweep_payments sweep_orders live_payments live_orders sweep_registry live_registry i k
  show ?thesis by (simp add: update_row_nth)
qed

lemma sweep_matches_live_expiry_at_minute_61:
  "status (payments (snd (cleanupExpiredPayments minute_61 sample_world)) ! 0) = ''expired''
   \<and> payment_status (orders (snd (cleanupExpiredPayments minute_61 sample_world)) ! 0) = ''expired''
   \<and> order_status (orders (snd (cleanupExpiredPayments minute_61 sample_world)) ! 0) = ''cancelled''
   \<and> orders (snd (cleanupExpiredPayments minute_61 sample_world))
       = orders (handlePaymentUpdate minute_61 ''AA-2024-000001'' expired_observation sample_world)
   \<and> monitoredAddresses (snd (cleanupExpiredPayments minute_61 sample_world))
       = monitoredAddresses (timeout_fired minute_61 ''AA-2024-000001'' sample_world)"
proof -
  have s: "findAll_expired (now minute_61) (payments sample_world) = [(0, sample_payment)]"
    by (simp add: findAll_expired_def minute_61_def sample_world_def sample_payment_def enumerate_eq_zip)
  have oid: "pay_order_id sample_payment = ''AA-2024-000001''"
    by (simp add: sample_payment_def)
  have p: "findOne (\<lambda>q. pay_order_id q = pay_order_id sample_payment) (payments sample_world)
           = Some (0, sample_payment)"
    by (simp add: sample_world_def)
  have f: "findOne (\<lambda>r. order_id r = pay_order_id sample_payment) (orders sample_world)
           = Some (0, sample_order)"
    by (simp add: sample_world_def sample_order_def sample_payment_def)
  have u: "distinct (map order_id (orders sample_world))"
    by (simp add: sample_world_def)
  from sweep_matches_live_expiry [OF s p f u, of minute_61, unfolded oid] show ?thesis by blast
qed

text \<open>
  C4.  The sweep and the live-monitor path are to expire a pending payment with
  the same final statuses and the same side-effect requests, monitor stop and
  cancellation notification.  Evaluated at minute 61 on an order that expired at
  minute 60: the tables and the registry agree, and the live path (the monitor's
  timeout, or \<open>handlePaymentUpdate\<close> alone) requests the cancellation notification,
  but the sweep requests none.
\<close>

theorem sweep_sends_no_cancellation:
  "status (payments sample_world ! 0) = ''pending''
   \<and> expires_at (payments sample_world ! 0) < now minute_61
   \<and> payments (snd (cleanupExpiredPayments minute_61 sample_world))
       = payments (timeout_fired minute_61 ''AA-2024-000001'' sample_world)
   \<and> orders (snd (cleanupExpiredPayments minute_61 sample_world))
       = orders (timeout_fired minute_61 ''AA-2024-000001'' sample_world)
   \<and> monitoredAddresses (snd (cleanupExpiredPayments minute_61 sample_world))
       = monitoredAddresses (timeout_fired minute_61 ''AA-2024-000001'' sample_world)
   \<and> requests (timeout_fired minute_61 ''AA-2024-000001'' sample_world)
       = [SendOrderCancellation ''AA-2024-000001'' ''Payment not received within time limit'']
   \<and> requests (handlePaymentUpdate minute_61 ''AA-2024-000001'' expired_observation sample_world)
       = [SendOrderCancellation ''AA-2024-000001'' ''Payment not received within time limit'']
   \<and> requests (snd (cleanupExpiredPayments minute_61 sample_world)) = []"
proof -
  have sweep_tables:
    "payments (snd (cleanupExpiredPayments minute_61 sample_world))
       = [sample_payment\<lparr>status := ''expired''\<rparr>]"
    "orders (snd (cleanupExpiredPayments minute_61 sample_world))
       = [sample_order\<lparr>payment_status := ''expired'', order_status := ''cancelled''\<rparr>]"
    "requests (snd (cleanupExpiredPayments minute_61 sample_world)) = []"
    by (simp_all add: cleanupExpiredPayments_def findAll_expired_def expire_payment_def
        stopMonitoring_tables minute_61_def sample_world_def sample_order_def sample_payment_def
        logged_def update_row_def enumerate_eq_zip)
  have sweep_registry:
    "monitoredAddresses (snd (cleanupExpiredPayments minute_61 sample_world))
       = monitoredAddresses (stopMonitoring ''AA-2024-000001'' sample_world)"
    by (simp add: cleanupExpiredPayments_def findAll_expired_def expire_payment_def
        minute_61_def sample_world_def sample_payment_def logged_def enumerate_eq_zip
        stopMonitoring_def)
  have live_handler:
    "payments (handlePaymentUpdate minute_61 ''AA-2024-000001'' expired_observation sample_world)
       = [sample_payment\<lparr>status := ''expired''\<rparr>]"
    "orders (handlePaymentUpdate minute_61 ''AA-2024-000001'' expired_observation sample_world)
       = [sample_order\<lparr>payment_status := ''expired'', order_status := ''cancelled''\<rparr>]"
    "requests (handlePaymentUpdate minute_61 ''AA-2024-000001'' expired_observation sample_world)
       = [SendOrderCancellation ''AA-2024-000001'' ''Payment not received within time limit'']"
    by (simp_all add: handlePaymentUpdate_def expired_observation_def sample_world_def
        sample_order_def sample_payment_def logged_def send_def update_row_def)
  have live_registry:
    "monitoredAddresses (timeout_fired minute_61 ''AA-2024-000001'' sample_world)
       = monitoredAddresses (stopMonitoring ''AA-2024-000001'' sample_world)"
    by (simp add: timeout_fired_def handlePaymentUpdate_monitors)
  have overdue:
    "status (payments sample_world ! 0) = ''pending''"
    "expires_at (payments sample_world ! 0) < now minute_61"
    by (simp_all add: sample_world_def sample_payment_def minute_61_def)
  from sweep_tables sweep_registry live_handler live_registry overdue
  show ?thesis by (simp add: timeout_fired_tables)
qed

end
